theory Spec2Isabelle
  imports Main
begin

section \<open>Trajectory conversion between tropter and Muscollo (TropterProblem.cpp)\<close>

text \<open>
  The two methods of \<^verbatim>\<open>MucoTropterSolver::TropterProblemBase<T>\<close> move a trajectory
  between tropter's \<^verbatim>\<open>Iterate\<close> (Eigen matrices, one row per variable and one column per
  time sample) and Muscollo's \<^verbatim>\<open>MucoIterate\<close> (SimTK matrices, one row per time sample and
  one column per variable). The values are \<^verbatim>\<open>double\<close>s that are copied and never computed
  with, so the element type is a type variable. The counts that the code casts to
  \<^verbatim>\<open>int\<close> are sizes of vectors held in memory, far below \<open>2^31\<close>: they are natural
  numbers here, and \<^verbatim>\<open>m_mpSum\<close>, an \<^verbatim>\<open>int\<close> member, is an integer.
\<close>

subsection \<open>Failures\<close>

text \<open>
  \<^item> \<open>LengthError\<close>: \<^verbatim>\<open>std::vector<std::string> v(n)\<close> with a negative \<^verbatim>\<open>int n\<close>
    (the count converts to a huge \<^verbatim>\<open>size_t\<close> and the constructor throws).
  \<^item> \<open>OutOfRange\<close>: a read or a write outside a matrix or a mapped buffer, or a read
    past the end of a vector that faults (undefined behaviour of the C++).
  \<^item> \<open>AssertionFailed\<close>: the \<^verbatim>\<open>assert\<close> of line 39.
\<close>

datatype error = LengthError | OutOfRange | AssertionFailed

text \<open>Sequencing: the first failure ends the function.\<close>

definition and_then :: "error + 'b \<Rightarrow> ('b \<Rightarrow> error + 'c) \<Rightarrow> error + 'c" where
  "and_then r f = (case r of Inl e \<Rightarrow> Inl e | Inr x \<Rightarrow> f x)"

subsection \<open>Dense matrices\<close>

text \<open>
  \<^verbatim>\<open>SimTK::Matrix\<close> and \<^verbatim>\<open>Eigen::MatrixXd\<close> both carry their two dimensions and store
  the elements column by column: element \<open>(i, j)\<close> of a matrix with \<open>nrow\<close> rows is at
  offset \<open>j * nrow + i\<close> of the buffer. The dimensions are kept apart from the buffer
  because a matrix with no element still has a shape: \<open>5 \<times> 0\<close>, \<open>0 \<times> 5\<close> and \<open>0 \<times> 0\<close>
  are three different matrices.
\<close>

record 'a matrix =
  nrow :: nat
  ncol :: nat
  elts :: "'a list"

text \<open>A default-constructed matrix (\<^verbatim>\<open>SimTK::Matrix m;\<close>, \<^verbatim>\<open>Eigen::MatrixXd m;\<close>).\<close>

definition empty_matrix :: "'a matrix" where
  "empty_matrix = \<lparr>nrow = 0, ncol = 0, elts = []\<rparr>"

text \<open>
  \<^verbatim>\<open>m.resize(r, c)\<close> gives the matrix its shape and leaves the elements uninitialised;
  \<open>uninit\<close> stands for whatever the fresh memory holds.
\<close>

definition resize :: "'a \<Rightarrow> nat \<Rightarrow> nat \<Rightarrow> 'a matrix" where
  "resize uninit r c = \<lparr>nrow = r, ncol = c, elts = replicate (r * c) uninit\<rparr>"

text \<open>Reading \<^verbatim>\<open>m(i, j)\<close>.\<close>

definition elt :: "'a matrix \<Rightarrow> nat \<Rightarrow> nat \<Rightarrow> error + 'a" where
  "elt m i j =
     (if i < nrow m \<and> j < ncol m \<and> j * nrow m + i < length (elts m)
      then Inr (elts m ! (j * nrow m + i))
      else Inl OutOfRange)"

text \<open>Writing \<^verbatim>\<open>m(i, j) = v\<close>.\<close>

definition set_elt :: "'a matrix \<Rightarrow> nat \<Rightarrow> nat \<Rightarrow> 'a \<Rightarrow> error + 'a matrix" where
  "set_elt m i j v =
     (if i < nrow m \<and> j < ncol m \<and> j * nrow m + i < length (elts m)
      then Inr (m\<lparr>elts := (elts m)[j * nrow m + i := v]\<rparr>)
      else Inl OutOfRange)"

subsection \<open>The counting loop\<close>

text \<open>
  \<^verbatim>\<open>for (int i = lo; i < hi; ++i) body\<close> over a state \<open>s\<close>; a failure in the body
  ends the loop.
\<close>

function for_loop :: "nat \<Rightarrow> nat \<Rightarrow> (nat \<Rightarrow> 's \<Rightarrow> error + 's) \<Rightarrow> 's \<Rightarrow> error + 's" where
  "for_loop i hi body s =
     (if i < hi
      then (case body i s of Inl e \<Rightarrow> Inl e | Inr s' \<Rightarrow> for_loop (Suc i) hi body s')
      else Inr s)"
  by pat_completeness auto
termination
  by (relation "measure (\<lambda>(i, hi, body, s). hi - i)") auto

declare for_loop.simps [simp del]

subsection \<open>The two trajectory records\<close>

text \<open>
  \<^verbatim>\<open>tropter::Iterate\<close> (and \<^verbatim>\<open>tropter::Solution\<close>, which the code reads through the same
  fields): public members.
\<close>

record 'a Iterate =
  time :: "'a list"
  state_names :: "string list"
  control_names :: "string list"
  adjunct_names :: "string list"
  parameter_names :: "string list"
  states :: "'a matrix"
  controls :: "'a matrix"
  adjuncts :: "'a matrix"
  parameters :: "'a list"

text \<open>
  \<^verbatim>\<open>OpenSim::MucoIterate\<close>: the fields are named after the getters the code reads them
  with, in the order of the eleven-argument constructor the code returns through. The
  class is declared outside this file; the record holds the eleven arguments as they are
  passed.
\<close>

record 'a MucoIterate =
  getTime :: "'a list"
  getStateNames :: "string list"
  getControlNames :: "string list"
  getMultiplierNames :: "string list"
  getDerivativeNames :: "string list"
  getParameterNames :: "string list"
  getStatesTrajectory :: "'a matrix"
  getControlsTrajectory :: "'a matrix"
  getMultipliersTrajectory :: "'a matrix"
  getDerivativesTrajectory :: "'a matrix"
  getParameters :: "'a list"

text \<open>
  The solver object. The conversion reads \<^verbatim>\<open>m_mpSum\<close> alone; \<^verbatim>\<open>m_mvSum\<close> and
  \<^verbatim>\<open>m_maSum\<close> are the two members named in the comment of line 32.
\<close>

record TropterProblemBase =
  m_mpSum :: int
  m_mvSum :: int
  m_maSum :: int

subsection \<open>tropter to Muscollo: \<^verbatim>\<open>convertIterateTropterToMuco\<close>\<close>

text \<open>
  \<^verbatim>\<open>std::copy_n(src.begin() + first, n, dst.begin())\<close> into a vector of \<open>n\<close> elements
  reads \<open>src[first]\<close>, ..., \<open>src[first + n - 1]\<close> in turn and has no check of its own. A
  read past the end of \<open>src\<close> is outside the vector: it either faults or yields whatever
  the memory there holds, and the function goes on. \<open>past_end\<close> says which, index by
  index: \<open>None\<close> for a fault, \<open>Some x\<close> for the value read.
\<close>

definition read_at :: "(nat \<Rightarrow> 'b option) \<Rightarrow> 'b list \<Rightarrow> nat \<Rightarrow> error + 'b" where
  "read_at past_end src k =
     (if k < length src then Inr (src ! k)
      else case past_end k of None \<Rightarrow> Inl OutOfRange | Some x \<Rightarrow> Inr x)"

fun read_each :: "(nat \<Rightarrow> error + 'b) \<Rightarrow> nat list \<Rightarrow> error + 'b list" where
  "read_each rd [] = Inr []"
| "read_each rd (k # ks) =
     and_then (rd k) (\<lambda>x. and_then (read_each rd ks) (\<lambda>xs. Inr (x # xs)))"

definition copy_n :: "(nat \<Rightarrow> 'b option) \<Rightarrow> 'b list \<Rightarrow> nat \<Rightarrow> nat \<Rightarrow> error + 'b list" where
  "copy_n past_end src first n = read_each (read_at past_end src) [first..<first + n]"

text \<open>
  \<^verbatim>\<open>SimTK::Vector v(n, data)\<close> and \<^verbatim>\<open>SimTK::RowVector v(n, data)\<close> copy \<open>n\<close> values
  from the start of a buffer.
\<close>

definition vector_from_data :: "nat \<Rightarrow> 'a list \<Rightarrow> error + 'a list" where
  "vector_from_data n buf = (if n \<le> length buf then Inr (take n buf) else Inl OutOfRange)"

text \<open>
  The pattern of lines 49-57, 66-74, 75-85 and 86-96: a default-constructed matrix that,
  when there is at least one channel, is resized to \<open>numTimes \<times> n\<close> and filled by the
  double loop with \<^verbatim>\<open>dst(itime, i) = src(i + offset, itime)\<close>. The offset is zero for the
  states, the controls and the multipliers, and \<open>numMultipliers\<close> for the derivatives.
\<close>

definition copy_channels :: "'a \<Rightarrow> nat \<Rightarrow> nat \<Rightarrow> nat \<Rightarrow> 'a matrix \<Rightarrow> error + 'a matrix" where
  "copy_channels uninit numTimes n offset src =
     (if n \<noteq> 0
      then for_loop 0 numTimes
             (\<lambda>itime. for_loop 0 n
                (\<lambda>i dst. and_then (elt src (i + offset) itime) (set_elt dst itime i)))
             (resize uninit numTimes n)
      else Inr empty_matrix)"

text \<open>
  \<^verbatim>\<open>numDerivatives\<close> of line 37, as the signed difference the code computes.
\<close>

definition tropSol_numDerivatives :: "TropterProblemBase \<Rightarrow> 'a Iterate \<Rightarrow> int" where
  "tropSol_numDerivatives this tropSol =
     int (length (adjunct_names tropSol)) - m_mpSum this"

definition convertIterateTropterToMuco ::
    "(nat \<Rightarrow> string option) \<Rightarrow> 'a \<Rightarrow> TropterProblemBase \<Rightarrow> 'a Iterate \<Rightarrow> error + 'a MucoIterate" where
  "convertIterateTropterToMuco past_end uninit this tropSol =
     (let numMultipliers = m_mpSum this in
      and_then (vector_from_data (length (time tropSol)) (time tropSol)) (\<lambda>time'.
      if numMultipliers < 0 then Inl LengthError else
      and_then (copy_n past_end (adjunct_names tropSol) 0 (nat numMultipliers)) (\<lambda>multiplier_names.
      let numDerivatives = tropSol_numDerivatives this tropSol in
      if \<not> (0 \<le> numDerivatives) then Inl AssertionFailed else
      and_then (copy_n past_end (adjunct_names tropSol) (nat numMultipliers) (nat numDerivatives))
        (\<lambda>derivative_names.
      let numTimes = length time';
          numStates = length (state_names tropSol);
          numControls = length (control_names tropSol);
          numParameters = length (parameter_names tropSol) in
      and_then (copy_channels uninit numTimes numStates 0 (states tropSol)) (\<lambda>states'.
      and_then (copy_channels uninit numTimes numControls 0 (controls tropSol)) (\<lambda>controls'.
      and_then (copy_channels uninit numTimes (nat numMultipliers) 0 (adjuncts tropSol))
        (\<lambda>multipliers'.
      and_then (copy_channels uninit numTimes (nat numDerivatives) (nat numMultipliers)
                  (adjuncts tropSol)) (\<lambda>derivatives'.
      and_then (vector_from_data numParameters (parameters tropSol)) (\<lambda>parameters'.
      Inr \<lparr>getTime = time',
           getStateNames = state_names tropSol,
           getControlNames = control_names tropSol,
           getMultiplierNames = multiplier_names,
           getDerivativeNames = derivative_names,
           getParameterNames = parameter_names tropSol,
           getStatesTrajectory = states',
           getControlsTrajectory = controls',
           getMultipliersTrajectory = multipliers',
           getDerivativesTrajectory = derivatives',
           getParameters = parameters'\<rparr>)))))))))"

text \<open>
  Lines 105-119: the two public entry points instantiate the template, for an iterate and
  for a solution.
\<close>

definition convertToMucoIterate ::
    "(nat \<Rightarrow> string option) \<Rightarrow> 'a \<Rightarrow> TropterProblemBase \<Rightarrow> 'a Iterate \<Rightarrow> error + 'a MucoIterate" where
  "convertToMucoIterate past_end uninit this tropIter =
     convertIterateTropterToMuco past_end uninit this tropIter"

definition convertToMucoSolution ::
    "(nat \<Rightarrow> string option) \<Rightarrow> 'a \<Rightarrow> TropterProblemBase \<Rightarrow> 'a Iterate \<Rightarrow> error + 'a MucoIterate" where
  "convertToMucoSolution past_end uninit this tropSol =
     convertIterateTropterToMuco past_end uninit this tropSol"

subsection \<open>Muscollo to tropter: \<^verbatim>\<open>convertToTropterIterate\<close>\<close>

text \<open>A default-constructed \<^verbatim>\<open>tropter::Iterate\<close>: nothing in any member.\<close>

definition default_Iterate :: "'a Iterate" where
  "default_Iterate =
     \<lparr>time = [], state_names = [], control_names = [], adjunct_names = [],
      parameter_names = [], states = empty_matrix, controls = empty_matrix,
      adjuncts = empty_matrix, parameters = []\<rparr>"

text \<open>
  \<^verbatim>\<open>Eigen::Map<const VectorXd>(p, n)\<close> and \<^verbatim>\<open>Eigen::Map<const MatrixXd>(p, r, c)\<close> view the
  \<open>n\<close> (or \<open>r * c\<close>) values that start at \<open>p\<close> as a vector (or as a column-major
  \<open>r \<times> c\<close> matrix). The code passes \<^verbatim>\<open>&time[0]\<close>, \<^verbatim>\<open>&states(0, 0)\<close> and so on: the start of
  the source's buffer. Taking the address reads nothing; the values are read when the view
  is assigned, and a view longer than the buffer reads past its end.
\<close>

definition Map_vector :: "'a list \<Rightarrow> nat \<Rightarrow> error + 'a list" where
  "Map_vector buf n = (if n \<le> length buf then Inr (take n buf) else Inl OutOfRange)"

definition Map_matrix :: "'a list \<Rightarrow> nat \<Rightarrow> nat \<Rightarrow> error + 'a matrix" where
  "Map_matrix buf r c =
     (if r * c \<le> length buf
      then Inr \<lparr>nrow = r, ncol = c, elts = take (r * c) buf\<rparr>
      else Inl OutOfRange)"

text \<open>
  \<^verbatim>\<open>m.transpose()\<close>: element \<open>(i, j)\<close> of the result is element \<open>(j, i)\<close> of \<open>m\<close>. The
  result's buffer is listed column by column.
\<close>

definition transpose_matrix :: "'a matrix \<Rightarrow> 'a matrix" where
  "transpose_matrix m =
     \<lparr>nrow = ncol m, ncol = nrow m,
      elts = concat (map (\<lambda>j. map (\<lambda>i. elts m ! (i * nrow m + j)) [0..<ncol m])
                         [0..<nrow m])\<rparr>"

text \<open>
  Assigning a block of \<open>k\<close> whole rows that starts at row \<open>first\<close>:
  \<^verbatim>\<open>dst.topRows(k) = blk\<close> starts at row 0 and \<^verbatim>\<open>dst.bottomRows(k) = blk\<close> at row
  \<open>nrow dst - k\<close>. The block must lie inside \<open>dst\<close> and \<open>blk\<close> must have its shape.
\<close>

definition assign_rows :: "nat \<Rightarrow> nat \<Rightarrow> 'a matrix \<Rightarrow> 'a matrix \<Rightarrow> error + 'a matrix" where
  "assign_rows first k blk dst =
     (if first + k \<le> nrow dst \<and> nrow blk = k \<and> ncol blk = ncol dst
         \<and> length (elts blk) = k * ncol dst \<and> length (elts dst) = nrow dst * ncol dst
      then Inr (dst\<lparr>elts :=
                  map (\<lambda>p. if first \<le> p mod nrow dst \<and> p mod nrow dst < first + k
                           then elts blk ! ((p div nrow dst) * k + (p mod nrow dst - first))
                           else elts dst ! p)
                      [0..<length (elts dst)]\<rparr>)
      else Inl OutOfRange)"

definition topRows_assign :: "nat \<Rightarrow> 'a matrix \<Rightarrow> 'a matrix \<Rightarrow> error + 'a matrix" where
  "topRows_assign k blk dst = assign_rows 0 k blk dst"

definition bottomRows_assign :: "nat \<Rightarrow> 'a matrix \<Rightarrow> 'a matrix \<Rightarrow> error + 'a matrix" where
  "bottomRows_assign k blk dst =
     (if k \<le> nrow dst then assign_rows (nrow dst - k) k blk dst else Inl OutOfRange)"

text \<open>
  The pattern of lines 157-158, 163-164, 171-172 and 175-176: the view of a Muscollo
  matrix's buffer as \<open>numTimes \<times> n\<close>, transposed.
\<close>

definition Map_transpose :: "'a matrix \<Rightarrow> nat \<Rightarrow> nat \<Rightarrow> error + 'a matrix" where
  "Map_transpose src numTimes n =
     and_then (Map_matrix (elts src) numTimes n) (\<lambda>m. Inr (transpose_matrix m))"

text \<open>
  Lines 156-161 and 162-167: with at least one channel the tropter matrix is that
  transposed view; with none it is resized to \<open>0 \<times> numTimes\<close>.
\<close>

definition transpose_channels :: "'a \<Rightarrow> nat \<Rightarrow> nat \<Rightarrow> 'a matrix \<Rightarrow> error + 'a matrix" where
  "transpose_channels uninit numTimes n src =
     (if n \<noteq> 0 then Map_transpose src numTimes n else Inr (resize uninit n numTimes))"

text \<open>
  Lines 169-177: the adjuncts are resized to hold every multiplier and every derivative;
  the multipliers are assigned to the top rows and the derivatives to the bottom rows.
\<close>

definition adjuncts_block ::
    "'a \<Rightarrow> nat \<Rightarrow> nat \<Rightarrow> nat \<Rightarrow> 'a matrix \<Rightarrow> 'a matrix \<Rightarrow> error + 'a matrix" where
  "adjuncts_block uninit numTimes numMultipliers numDerivatives multipliers derivatives =
     (let adjuncts0 = resize uninit (numMultipliers + numDerivatives) numTimes in
      and_then (if numMultipliers \<noteq> 0
                then and_then (Map_transpose multipliers numTimes numMultipliers)
                       (\<lambda>blk. topRows_assign numMultipliers blk adjuncts0)
                else Inr adjuncts0) (\<lambda>adjuncts1.
      if numDerivatives \<noteq> 0
      then and_then (Map_transpose derivatives numTimes numDerivatives)
             (\<lambda>blk. bottomRows_assign numDerivatives blk adjuncts1)
      else Inr adjuncts1))"

text \<open>
  \<^verbatim>\<open>MucoIterate::empty()\<close> is declared outside this file, so the conversion takes it as
  the parameter \<open>empty'\<close>. \<open>this\<close> is the solver object of the method; the function does
  not read it.
\<close>

definition convertToTropterIterate ::
    "('a MucoIterate \<Rightarrow> bool) \<Rightarrow> 'a \<Rightarrow> TropterProblemBase \<Rightarrow> 'a MucoIterate
       \<Rightarrow> error + 'a Iterate" where
  "convertToTropterIterate empty' uninit this mucoIter =
     (if empty' mucoIter then Inr default_Iterate else
      let time = getTime mucoIter in
      and_then (Map_vector time (length time)) (\<lambda>time'.
      let state_names' = getStateNames mucoIter;
          control_names' = getControlNames mucoIter;
          derivativeNames = getDerivativeNames mucoIter;
          adjunct_names' = getMultiplierNames mucoIter @ derivativeNames;
          parameter_names' = getParameterNames mucoIter;
          numTimes = length time;
          numStates = length state_names';
          numControls = length control_names';
          numMultipliers = length (getMultiplierNames mucoIter);
          numDerivatives = length derivativeNames;
          numParameters = length parameter_names' in
      and_then (transpose_channels uninit numTimes numStates (getStatesTrajectory mucoIter))
        (\<lambda>states'.
      and_then (transpose_channels uninit numTimes numControls
                  (getControlsTrajectory mucoIter)) (\<lambda>controls'.
      and_then (adjuncts_block uninit numTimes numMultipliers numDerivatives
                  (getMultipliersTrajectory mucoIter) (getDerivativesTrajectory mucoIter))
        (\<lambda>adjuncts'.
      and_then (if numParameters \<noteq> 0
                then Map_vector (getParameters mucoIter) numParameters
                else Inr []) (\<lambda>parameters'.
      Inr \<lparr>time = time',
           state_names = state_names',
           control_names = control_names',
           adjunct_names = adjunct_names',
           parameter_names = parameter_names',
           states = states',
           controls = controls',
           adjuncts = adjuncts',
           parameters = parameters'\<rparr>))))))"

subsection \<open>The two methods, statement by statement\<close>



















subsection \<open>Well-formed trajectories\<close>

text \<open>
  The trajectory record of the data model: every named channel is one column (Muscollo) or
  one row (tropter) of its matrix, and every column holds one value per time sample. A
  matrix's buffer holds exactly its \<open>nrow * ncol\<close> elements. A group with no channel has no
  column; its matrix may be \<open>0 \<times> 0\<close> or \<open>numTimes \<times> 0\<close>.
\<close>

definition channels_ok :: "nat \<Rightarrow> string list \<Rightarrow> 'a matrix \<Rightarrow> bool" where
  "channels_ok numTimes names m \<longleftrightarrow>
     ncol m = length names \<and> length (elts m) = nrow m * ncol m
     \<and> (names \<noteq> [] \<longrightarrow> nrow m = numTimes)"

definition MucoIterate_ok :: "'a MucoIterate \<Rightarrow> bool" where
  "MucoIterate_ok mucoIter \<longleftrightarrow>
     channels_ok (length (getTime mucoIter)) (getStateNames mucoIter)
       (getStatesTrajectory mucoIter)
     \<and> channels_ok (length (getTime mucoIter)) (getControlNames mucoIter)
         (getControlsTrajectory mucoIter)
     \<and> channels_ok (length (getTime mucoIter)) (getMultiplierNames mucoIter)
         (getMultipliersTrajectory mucoIter)
     \<and> channels_ok (length (getTime mucoIter)) (getDerivativeNames mucoIter)
         (getDerivativesTrajectory mucoIter)
     \<and> length (getParameters mucoIter) = length (getParameterNames mucoIter)"

text \<open>
  What the tropter side needs for every read of \<^verbatim>\<open>convertIterateTropterToMuco\<close> to be in
  range: each matrix has a row for each of its names and a column for each time sample,
  there is a parameter value for each parameter name, and \<^verbatim>\<open>m_mpSum\<close> counts some of the
  adjuncts.
\<close>

definition fits :: "'a matrix \<Rightarrow> nat \<Rightarrow> nat \<Rightarrow> bool" where
  "fits m r c \<longleftrightarrow> r \<le> nrow m \<and> c \<le> ncol m \<and> nrow m * ncol m \<le> length (elts m)"

definition Iterate_ok :: "TropterProblemBase \<Rightarrow> 'a Iterate \<Rightarrow> bool" where
  "Iterate_ok this tropSol \<longleftrightarrow>
     0 \<le> m_mpSum this \<and> m_mpSum this \<le> int (length (adjunct_names tropSol))
     \<and> fits (states tropSol) (length (state_names tropSol)) (length (time tropSol))
     \<and> fits (controls tropSol) (length (control_names tropSol)) (length (time tropSol))
     \<and> fits (adjuncts tropSol) (length (adjunct_names tropSol)) (length (time tropSol))
     \<and> length (parameter_names tropSol) \<le> length (parameters tropSol)"

subsection \<open>One layout against the other\<close>

text \<open>
  Column \<open>i\<close> of the Muscollo matrix is row \<open>first + i\<close> of the tropter matrix, for each
  of \<open>n\<close> channels and at each of \<open>numTimes\<close> time samples: the two elements exist and
  are equal.
\<close>

definition columns_are_rows :: "'a matrix \<Rightarrow> 'a matrix \<Rightarrow> nat \<Rightarrow> nat \<Rightarrow> nat \<Rightarrow> bool" where
  "columns_are_rows muco trop first n numTimes \<longleftrightarrow>
     (\<forall>itime<numTimes. \<forall>i<n.
        case elt muco itime i of
          Inl e \<Rightarrow> False
        | Inr v \<Rightarrow> elt trop (first + i) itime = Inr v)"

subsection \<open>Shapes of an empty group, in the spec's words\<close>

text \<open>
  The spec asks that an empty channel group give a matrix that is zero-sized along the
  empty dimension only: no channel, and still one row (Muscollo) or one column (tropter)
  per time sample. It also asks that the matrix never be a degenerate matrix of empty
  rows or empty columns: a matrix without any element that still has rows or columns.
\<close>

definition zero_sized_along_channels_only_Muco :: "nat \<Rightarrow> 'a matrix \<Rightarrow> bool" where
  "zero_sized_along_channels_only_Muco numTimes m \<longleftrightarrow> ncol m = 0 \<and> nrow m = numTimes"

definition zero_sized_along_channels_only_tropter :: "nat \<Rightarrow> 'a matrix \<Rightarrow> bool" where
  "zero_sized_along_channels_only_tropter numTimes m \<longleftrightarrow> nrow m = 0 \<and> ncol m = numTimes"

definition degenerate :: "'a matrix \<Rightarrow> bool" where
  "degenerate m \<longleftrightarrow> elts m = [] \<and> 0 < nrow m + ncol m"

subsection \<open>A sample trajectory\<close>

text \<open>
  Two time samples, three states, no control, one multiplier, two derivatives and one
  parameter, in both layouts; the solver counts one multiplier. Past the end of a vector
  every read faults (\<open>past_faults\<close>), or every read yields a string (\<open>past_junk\<close>).
\<close>

definition past_faults :: "nat \<Rightarrow> string option" where
  "past_faults k = None"

definition past_junk :: "nat \<Rightarrow> string option" where
  "past_junk k = Some ''junk''"

definition sample_problem :: TropterProblemBase where
  "sample_problem = \<lparr>m_mpSum = 1, m_mvSum = 0, m_maSum = 0\<rparr>"

definition sample_tropSol :: "int Iterate" where
  "sample_tropSol =
     \<lparr>time = [10, 20],
      state_names = [''x'', ''y'', ''z''],
      control_names = [],
      adjunct_names = [''lambda'', ''a0'', ''a1''],
      parameter_names = [''p''],
      states = \<lparr>nrow = 3, ncol = 2, elts = [1, 2, 3, 4, 5, 6]\<rparr>,
      controls = \<lparr>nrow = 0, ncol = 2, elts = []\<rparr>,
      adjuncts = \<lparr>nrow = 3, ncol = 2, elts = [7, 8, 9, 10, 11, 12]\<rparr>,
      parameters = [99]\<rparr>"

definition sample_mucoIter :: "int MucoIterate" where
  "sample_mucoIter =
     \<lparr>getTime = [10, 20],
      getStateNames = [''x'', ''y'', ''z''],
      getControlNames = [],
      getMultiplierNames = [''lambda''],
      getDerivativeNames = [''a0'', ''a1''],
      getParameterNames = [''p''],
      getStatesTrajectory = \<lparr>nrow = 2, ncol = 3, elts = [1, 4, 2, 5, 3, 6]\<rparr>,
      getControlsTrajectory = \<lparr>nrow = 0, ncol = 0, elts = []\<rparr>,
      getMultipliersTrajectory = \<lparr>nrow = 2, ncol = 1, elts = [7, 10]\<rparr>,
      getDerivativesTrajectory = \<lparr>nrow = 2, ncol = 2, elts = [8, 11, 9, 12]\<rparr>,
      getParameters = [99]\<rparr>"

text \<open>
  A stand-in for \<^verbatim>\<open>MucoIterate::empty()\<close> in the examples: no time sample and no value
  in any matrix or in the parameters. \<open>blank_mucoIter\<close> is such an iterate; it still
  names one state.
\<close>

definition no_values :: "'a MucoIterate \<Rightarrow> bool" where
  "no_values mucoIter \<longleftrightarrow>
     getTime mucoIter = [] \<and> elts (getStatesTrajectory mucoIter) = []
     \<and> elts (getControlsTrajectory mucoIter) = []
     \<and> elts (getMultipliersTrajectory mucoIter) = []
     \<and> elts (getDerivativesTrajectory mucoIter) = []
     \<and> getParameters mucoIter = []"

definition blank_mucoIter :: "int MucoIterate" where
  "blank_mucoIter =
     \<lparr>getTime = [],
      getStateNames = [''x''],
      getControlNames = [],
      getMultiplierNames = [],
      getDerivativeNames = [],
      getParameterNames = [],
      getStatesTrajectory = \<lparr>nrow = 0, ncol = 1, elts = []\<rparr>,
      getControlsTrajectory = \<lparr>nrow = 0, ncol = 0, elts = []\<rparr>,
      getMultipliersTrajectory = \<lparr>nrow = 0, ncol = 0, elts = []\<rparr>,
      getDerivativesTrajectory = \<lparr>nrow = 0, ncol = 0, elts = []\<rparr>,
      getParameters = []\<rparr>"



section \<open>Model factories (ModelFactory.h)\<close>

text \<open>
  \<^verbatim>\<open>createNLinkPendulum\<close> is declared in the header and defined in another file, so it is
  a parameter. Line 42 gives \<^verbatim>\<open>createDoublePendulum\<close> its body. Line 40 reads
  \<^verbatim>\<open>/// This is a convenience for `createNLinkPendulum(1)`.static Model createPendulum()
  { return createNLinkPendulum(1); }\<close>: the definition of \<^verbatim>\<open>createPendulum\<close> stands behind
  \<^verbatim>\<open>///\<close> on the same line and is part of the documentation comment, so the class has no
  member of that name.
\<close>

definition createDoublePendulum :: "(int \<Rightarrow> 'model) \<Rightarrow> 'model" where
  "createDoublePendulum createNLinkPendulum = createNLinkPendulum 2"

text \<open>The members that the class declares, in the order of the header.\<close>

definition ModelFactory_members :: "string list" where
  "ModelFactory_members =
     [''createNLinkPendulum'', ''createDoublePendulum'', ''createPlanarPointMass'',
      ''createBrachistochrone'', ''replaceMusclesWithPathActuators'', ''removeMuscles'',
      ''replaceJointWithWeldJoint'', ''createReserveActuators'']"

text \<open>
  A call \<^verbatim>\<open>ModelFactory::name()\<close> of one of the pendulum conveniences: the result of the
  inline body when the header has one for that name, and nothing otherwise (the call does
  not compile).
\<close>

definition call_convenience :: "(int \<Rightarrow> 'model) \<Rightarrow> string \<Rightarrow> 'model option" where
  "call_convenience createNLinkPendulum name =
     (if name = ''createDoublePendulum'' then Some (createDoublePendulum createNLinkPendulum)
      else None)"

section \<open>Properties of the conversions\<close>

subsection \<open>Sequencing, loops and indices\<close>

lemma and_then_Inr_iff:
  "and_then r f = Inr y \<longleftrightarrow> (\<exists>x. r = Inr x \<and> f x = Inr y)"
  by (cases r) (simp_all add: and_then_def)

lemma and_then_Inl_iff:
  "and_then r f = Inl e \<longleftrightarrow> r = Inl e \<or> (\<exists>x. r = Inr x \<and> f x = Inl e)"
  by (cases r) (simp_all add: and_then_def)

lemma for_loop_rule:
  assumes "for_loop i hi body s = Inr s'" and "Inv i s"
    and step: "\<And>k t t'. i \<le> k \<Longrightarrow> k < hi \<Longrightarrow> Inv k t \<Longrightarrow> body k t = Inr t' \<Longrightarrow> Inv (Suc k) t'"
  shows "Inv (max i hi) s'"
  using assms
proof (induction i hi body s rule: for_loop.induct)
  case (1 i hi body s)
  show ?case
  proof (cases "i < hi")
    case False
    with "1.prems"(1) have "s' = s" by (simp add: for_loop.simps)
    with False "1.prems"(2) show ?thesis by (simp add: max_def)
  next
    case True
    with "1.prems"(1) obtain t where t: "body i s = Inr t" and rest: "for_loop (Suc i) hi body t = Inr s'"
      by (auto simp: for_loop.simps [of i] split: sum.splits)
    have "Inv (Suc i) t" using "1.prems"(3) [of i s t] True "1.prems"(2) t by simp
    then have "Inv (max (Suc i) hi) s'"
      using "1.IH" [OF True t rest] "1.prems"(3) by simp
    with True show ?thesis by (simp add: max_def)
  qed
qed

lemma for_loop_total:
  assumes "Inv i s"
    and step: "\<And>k t. i \<le> k \<Longrightarrow> k < hi \<Longrightarrow> Inv k t \<Longrightarrow> \<exists>t'. body k t = Inr t' \<and> Inv (Suc k) t'"
  shows "\<exists>s'. for_loop i hi body s = Inr s' \<and> Inv (max i hi) s'"
  using assms
proof (induction i hi body s rule: for_loop.induct)
  case (1 i hi body s)
  show ?case
  proof (cases "i < hi")
    case False
    with "1.prems"(1) show ?thesis by (simp add: for_loop.simps [of i] max_def)
  next
    case True
    from "1.prems"(2) [of i s] True "1.prems"(1)
    obtain t where t: "body i s = Inr t" and inv: "Inv (Suc i) t" by auto
    have "\<exists>s'. for_loop (Suc i) hi body t = Inr s' \<and> Inv (max (Suc i) hi) s'"
      using "1.IH" [OF True t inv] "1.prems"(2) by simp
    with True t show ?thesis by (simp add: for_loop.simps [of i] max_def)
  qed
qed

lemma for_loop_error:
  assumes "for_loop i hi body s = Inl e"
  shows "\<exists>k t. body k t = Inl e"
  using assms
proof (induction i hi body s rule: for_loop.induct)
  case (1 i hi body s)
  from "1.prems" have lt: "i < hi" by (simp add: for_loop.simps [of i] split: if_splits)
  show ?case
  proof (cases "body i s")
    case (Inl e')
    with "1.prems" lt have "e' = e" by (simp add: for_loop.simps [of i])
    with Inl show ?thesis by blast
  next
    case (Inr t)
    with "1.prems" lt have "for_loop (Suc i) hi body t = Inl e" by (simp add: for_loop.simps [of i])
    from "1.IH" [OF lt Inr this] show ?thesis .
  qed
qed

lemma offset_inj:
  fixes N :: nat
  assumes "t < N" "t' < N" "i * N + t = i' * N + t'"
  shows "i = i' \<and> t = t'"
proof -
  have a: "(i * N + t) div N = i" using assms(1) by simp
  have b: "(i' * N + t') div N = i'" using assms(2) by simp
  from a b assms(3) have "i = i'" by metis
  with assms(3) show ?thesis by simp
qed

lemma offset_bound:
  fixes N :: nat
  assumes "t < N" "i < n"
  shows "i * N + t < N * n"
proof -
  have "i * N + t < i * N + N" using assms by simp
  also have "\<dots> = (Suc i) * N" by simp
  also have "\<dots> \<le> n * N" using assms(2) by (intro mult_le_mono1) simp
  finally show ?thesis by (simp add: mult.commute)
qed

lemma grid_eqI:
  fixes N :: nat
  assumes "length xs = N * n" "length ys = N * n"
    and "\<And>t i. t < N \<Longrightarrow> i < n \<Longrightarrow> xs ! (i * N + t) = ys ! (i * N + t)"
  shows "xs = ys"
proof (rule nth_equalityI)
  show "length xs = length ys" using assms(1,2) by simp
next
  fix k assume "k < length xs"
  then have k: "k < N * n" using assms(1) by simp
  then have N: "0 < N" by (cases "N = 0") simp_all
  have "k div N < n" using k N by (simp add: less_mult_imp_div_less mult.commute)
  moreover have "k mod N < N" using N by simp
  ultimately have "xs ! ((k div N) * N + k mod N) = ys ! ((k div N) * N + k mod N)"
    using assms(3) by blast
  then show "xs ! k = ys ! k" by simp
qed

lemma length_concat_grid:
  "length (concat (map (\<lambda>j. map (f j) [0..<n]) [0..<m])) = m * n"
  by (induction m) simp_all

lemma nth_concat_grid:
  assumes "j < m" "i < n"
  shows "concat (map (\<lambda>j. map (f j) [0..<n]) [0..<m]) ! (j * n + i) = f j i"
  using assms
proof (induction m)
  case 0
  then show ?case by simp
next
  case (Suc m)
  show ?case
  proof (cases "j < m")
    case True
    have "j * n + i < m * n" using True Suc.prems(2) offset_bound [of i n j m]
      by (simp add: mult.commute)
    with True Suc show ?thesis by (simp add: nth_append length_concat_grid)
  next
    case False
    with Suc.prems have "j = m" by simp
    with Suc.prems show ?thesis by (simp add: nth_append length_concat_grid)
  qed
qed

subsection \<open>Reading the two layouts\<close>

lemma elt_in_range:
  assumes "i < nrow m" "j < ncol m" "nrow m * ncol m \<le> length (elts m)"
  shows "elt m i j = Inr (elts m ! (j * nrow m + i))"
proof -
  have "j * nrow m + i < nrow m * ncol m" using assms(1,2) by (rule offset_bound)
  with assms show ?thesis by (simp add: elt_def)
qed

lemma channel_elt:
  assumes "channels_ok numTimes names m" "t < numTimes" "i < length names"
  shows "elt m t i = Inr (elts m ! (i * numTimes + t))"
proof -
  from assms have s: "nrow m = numTimes" "ncol m = length names"
    "length (elts m) = numTimes * length names"
    by (auto simp: channels_ok_def)
  have "i * numTimes + t < numTimes * length names" using assms(2,3) by (rule offset_bound)
  with s assms show ?thesis by (simp add: elt_def)
qed

lemma columns_are_rowsD:
  assumes "columns_are_rows S A first n numTimes" "t < numTimes" "i < n"
    and "elt S t i = Inr v"
  shows "elt A (first + i) t = Inr v"
proof -
  from assms(1-3) have "case elt S t i of Inl e \<Rightarrow> False
      | Inr v \<Rightarrow> elt A (first + i) t = Inr v"
    by (simp add: columns_are_rows_def)
  with assms(4) show ?thesis by simp
qed

subsection \<open>The copy loops of \<^verbatim>\<open>convertIterateTropterToMuco\<close>\<close>

lemma read_each_map:
  assumes "\<And>k. k \<in> set ks \<Longrightarrow> rd k = Inr (g k)"
  shows "read_each rd ks = Inr (map g ks)"
  using assms by (induction ks) (simp_all add: and_then_def)

lemma read_each_error:
  assumes "read_each rd ks = Inl e"
  shows "\<exists>k. rd k = Inl e"
  using assms
proof (induction ks arbitrary: e)
  case Nil
  then show ?case by simp
next
  case (Cons k ks)
  then show ?case
    by (cases "rd k"; cases "read_each rd ks") (auto simp: and_then_def)
qed

lemma copy_n_in_range:
  assumes "first + n \<le> length src"
  shows "copy_n past_end src first n = Inr (take n (drop first src))"
proof -
  have "read_each (read_at past_end src) [first..<first + n]
          = Inr (map ((!) src) [first..<first + n])"
    using assms by (intro read_each_map) (simp add: read_at_def)
  moreover have "map ((!) src) [first..<first + n] = take n (drop first src)"
    using assms by (intro nth_equalityI) simp_all
  ultimately show ?thesis by (simp add: copy_n_def)
qed

lemma copy_n_error:
  assumes "copy_n past_end src first n = Inl e"
  shows "e = OutOfRange"
proof -
  from assms obtain k where "read_at past_end src k = Inl e"
    unfolding copy_n_def using read_each_error by fast
  then show ?thesis by (auto simp: read_at_def split: if_splits option.splits)
qed

lemma set_elt_Inr:
  assumes "set_elt m i j v = Inr m'"
  shows "m' = m\<lparr>elts := (elts m)[j * nrow m + i := v]\<rparr> \<and> i < nrow m \<and> j < ncol m
         \<and> j * nrow m + i < length (elts m)"
  using assms by (auto simp: set_elt_def split: if_splits)

text \<open>One pass of the inner loop: row \<open>itime\<close> of the destination.\<close>

lemma copy_row_sound:
  assumes run: "for_loop 0 n (\<lambda>i dst. and_then (elt src (i + offset) itime) (set_elt dst itime i)) d
                  = Inr d'"
    and shape: "nrow d = numTimes" "ncol d = n" "length (elts d) = numTimes * n"
    and itime: "itime < numTimes"
    and before: "\<forall>t<itime. \<forall>i<n. elt src (i + offset) t = Inr (elts d ! (i * numTimes + t))"
  shows "nrow d' = numTimes \<and> ncol d' = n \<and> length (elts d') = numTimes * n
         \<and> (\<forall>t<Suc itime. \<forall>i<n. elt src (i + offset) t = Inr (elts d' ! (i * numTimes + t)))"
proof -
  let ?Inv = "\<lambda>k m. nrow m = numTimes \<and> ncol m = n \<and> length (elts m) = numTimes * n
      \<and> (\<forall>t<itime. \<forall>i<n. elt src (i + offset) t = Inr (elts m ! (i * numTimes + t)))
      \<and> (\<forall>i<k. elt src (i + offset) itime = Inr (elts m ! (i * numTimes + itime)))"
  have "?Inv (max 0 n) d'"
  proof (rule for_loop_rule [where Inv = ?Inv, OF run])
    show "?Inv 0 d" using shape before by simp
  next
    fix k m m'
    assume k: "k < n" and inv: "?Inv k m"
      and body: "and_then (elt src (k + offset) itime) (set_elt m itime k) = Inr m'"
    from body obtain v where v: "elt src (k + offset) itime = Inr v"
      and w: "set_elt m itime k v = Inr m'"
      by (auto simp: and_then_Inr_iff)
    from set_elt_Inr [OF w] inv
    have m': "m' = m\<lparr>elts := (elts m)[k * numTimes + itime := v]\<rparr>"
      and inb: "k * numTimes + itime < length (elts m)" by simp_all
    have old: "elts m' ! (i * numTimes + t) = elts m ! (i * numTimes + t)"
      if "t < numTimes" "(i, t) \<noteq> (k, itime)" for i t
    proof -
      have "i * numTimes + t \<noteq> k * numTimes + itime"
        using offset_inj [of t numTimes itime i k] that itime by auto
      then show ?thesis by (simp add: m')
    qed
    have new: "elts m' ! (k * numTimes + itime) = v" using inb by (simp add: m')
    show "?Inv (Suc k) m'"
    proof (intro conjI allI impI)
      show "nrow m' = numTimes" "ncol m' = n" "length (elts m') = numTimes * n"
        using inv by (simp_all add: m')
    next
      fix t i assume "t < itime" "i < n"
      then show "elt src (i + offset) t = Inr (elts m' ! (i * numTimes + t))"
        using inv old [of t i] itime by simp
    next
      fix i assume "i < Suc k"
      then show "elt src (i + offset) itime = Inr (elts m' ! (i * numTimes + itime))"
        using inv old [of itime i] itime new v by (cases "i = k") simp_all
    qed
  qed
  then show ?thesis by (auto simp: less_Suc_eq)
qed

lemma copy_channels_sound:
  assumes run: "copy_channels uninit numTimes n offset src = Inr dst" and n: "n \<noteq> 0"
  shows "nrow dst = numTimes \<and> ncol dst = n \<and> length (elts dst) = numTimes * n
         \<and> (\<forall>t<numTimes. \<forall>i<n. elt src (i + offset) t = Inr (elts dst ! (i * numTimes + t)))"
proof -
  let ?body = "\<lambda>itime. for_loop 0 n
                (\<lambda>i dst. and_then (elt src (i + offset) itime) (set_elt dst itime i))"
  let ?Inv = "\<lambda>k m. nrow m = numTimes \<and> ncol m = n \<and> length (elts m) = numTimes * n
      \<and> (\<forall>t<k. \<forall>i<n. elt src (i + offset) t = Inr (elts m ! (i * numTimes + t)))"
  from run n have loop: "for_loop 0 numTimes ?body (resize uninit numTimes n) = Inr dst"
    by (simp add: copy_channels_def)
  have "?Inv (max 0 numTimes) dst"
  proof (rule for_loop_rule [where Inv = ?Inv, OF loop])
    show "?Inv 0 (resize uninit numTimes n)" by (simp add: resize_def)
  next
    fix k m m'
    assume "k < numTimes" "?Inv k m" "?body k m = Inr m'"
    then show "?Inv (Suc k) m'"
      using copy_row_sound [of n src offset k m m' numTimes] by simp
  qed
  then show ?thesis by simp
qed

lemma copy_channels_elt:
  assumes run: "copy_channels uninit numTimes n offset src = Inr dst"
    and "t < numTimes" "i < n"
  shows "\<exists>v. elt dst t i = Inr v \<and> elt src (i + offset) t = Inr v"
proof -
  from assms have n: "n \<noteq> 0" by auto
  note s = copy_channels_sound [OF run n]
  have "i * numTimes + t < numTimes * n" using assms by (simp add: offset_bound)
  then have "elt dst t i = Inr (elts dst ! (i * numTimes + t))"
    using s assms by (simp add: elt_def)
  with s assms show ?thesis by simp
qed

lemma copy_channels_columns:
  assumes "copy_channels uninit numTimes n offset src = Inr dst"
  shows "columns_are_rows dst src offset n numTimes"
  unfolding columns_are_rows_def
proof (intro allI impI)
  fix itime i assume "itime < numTimes" "i < n"
  from copy_channels_elt [OF assms this]
  show "case elt dst itime i of Inl e \<Rightarrow> False
        | Inr v \<Rightarrow> elt src (offset + i) itime = Inr v"
    by (auto simp: add.commute)
qed

lemma copy_channels_shape:
  assumes "copy_channels uninit numTimes n offset src = Inr dst"
  shows "ncol dst = n \<and> length (elts dst) = nrow dst * ncol dst
         \<and> (if n = 0 then dst = empty_matrix else nrow dst = numTimes)"
proof (cases "n = 0")
  case True
  with assms have "dst = empty_matrix" by (simp add: copy_channels_def)
  with True show ?thesis by (simp add: empty_matrix_def)
next
  case False
  from copy_channels_sound [OF assms False] False show ?thesis by simp
qed

lemma copy_channels_error:
  assumes "copy_channels uninit numTimes n offset src = Inl e"
  shows "e = OutOfRange"
proof -
  from assms have "for_loop 0 numTimes
             (\<lambda>itime. for_loop 0 n
                (\<lambda>i dst. and_then (elt src (i + offset) itime) (set_elt dst itime i)))
             (resize uninit numTimes n) = Inl e"
    by (simp add: copy_channels_def split: if_splits)
  then obtain k t where "for_loop 0 n
                (\<lambda>i dst. and_then (elt src (i + offset) k) (set_elt dst k i)) t = Inl e"
    using for_loop_error by fast
  then obtain i d where "and_then (elt src (i + offset) k) (set_elt d k i) = Inl e"
    using for_loop_error by fast
  then show ?thesis
    by (auto simp: and_then_def elt_def set_elt_def split: sum.splits if_splits)
qed

lemma copy_channels_succeeds:
  assumes reads: "\<And>t i. t < numTimes \<Longrightarrow> i < n \<Longrightarrow> \<exists>v. elt src (i + offset) t = Inr v"
  shows "\<exists>dst. copy_channels uninit numTimes n offset (src :: 'a matrix) = Inr dst"
proof (cases "n = 0")
  case True
  then show ?thesis by (simp add: copy_channels_def)
next
  case False
  let ?shape = "\<lambda>m :: 'a matrix. nrow m = numTimes \<and> ncol m = n \<and> length (elts m) = numTimes * n"
  let ?inner = "\<lambda>itime i dst. and_then (elt src (i + offset) itime) (set_elt dst itime i)"
  have inner: "\<exists>m'. for_loop 0 n (?inner itime) m = Inr m' \<and> ?shape m'"
    if "itime < numTimes" "?shape m" for itime m
  proof -
    have "\<exists>m'. for_loop 0 n (?inner itime) m = Inr m' \<and> (\<lambda>k. ?shape) (max 0 n) m'"
    proof (rule for_loop_total)
      show "?shape m" by (rule that)
    next
      fix k and d :: "'a matrix" assume k: "k < n" and d: "?shape d"
      from reads [OF that(1) k] obtain v where "elt src (k + offset) itime = Inr v" ..
      moreover have "k * numTimes + itime < numTimes * n"
        using that(1) k by (simp add: offset_bound)
      ultimately show "\<exists>t'. ?inner itime k d = Inr t' \<and> ?shape t'"
        using d k that(1) by (simp add: and_then_def set_elt_def)
    qed
    then show ?thesis by simp
  qed
  have "\<exists>dst. for_loop 0 numTimes (\<lambda>itime. for_loop 0 n (?inner itime))
           (resize uninit numTimes n) = Inr dst \<and> (\<lambda>k. ?shape) (max 0 numTimes) dst"
  proof (rule for_loop_total)
    show "?shape (resize uninit numTimes n)" by (simp add: resize_def)
  next
    fix k and d :: "'a matrix" assume "k < numTimes" "?shape d"
    then show "\<exists>t'. for_loop 0 n (?inner k) d = Inr t' \<and> ?shape t'" by (rule inner)
  qed
  with False show ?thesis by (auto simp: copy_channels_def)
qed

lemma copy_channels_total:
  assumes "n + offset \<le> nrow src" "numTimes \<le> ncol src"
    and "nrow src * ncol src \<le> length (elts src)"
  shows "\<exists>dst. copy_channels uninit numTimes n offset src = Inr dst"
proof (rule copy_channels_succeeds)
  fix t i assume "t < numTimes" "i < n"
  with assms have "elt src (i + offset) t = Inr (elts src ! (t * nrow src + (i + offset)))"
    by (intro elt_in_range) simp_all
  then show "\<exists>v. elt src (i + offset) t = Inr v" ..
qed



lemma copy_channels_undoes:
  assumes run: "copy_channels uninit numTimes (length names) offset A = Inr dst"
    and cols: "columns_are_rows S A offset (length names) numTimes"
    and ok: "channels_ok numTimes names S"
  shows "elts dst = elts S \<and> ncol dst = ncol S \<and> (names \<noteq> [] \<longrightarrow> dst = S)"
proof (cases "names = []")
  case True
  with run have "dst = empty_matrix" by (simp add: copy_channels_def)
  with True ok show ?thesis by (auto simp: channels_ok_def empty_matrix_def)
next
  case False
  then have n: "length names \<noteq> 0" by simp
  note s = copy_channels_sound [OF run n]
  from ok False have shape: "nrow S = numTimes" "ncol S = length names"
    "length (elts S) = numTimes * length names"
    by (auto simp: channels_ok_def)
  have "elts dst = elts S"
  proof (rule grid_eqI [where N = numTimes and n = "length names"])
    show "length (elts dst) = numTimes * length names" using s by simp
    show "length (elts S) = numTimes * length names" by (rule shape)
  next
    fix t i assume ti: "t < numTimes" "i < length names"
    from columns_are_rowsD [OF cols ti channel_elt [OF ok ti]]
    have "elt A (offset + i) t = Inr (elts S ! (i * numTimes + t))" .
    moreover from s ti have "elt A (i + offset) t = Inr (elts dst ! (i * numTimes + t))"
      by simp
    ultimately show "elts dst ! (i * numTimes + t) = elts S ! (i * numTimes + t)"
      by (simp add: add.commute)
  qed
  with s shape show ?thesis by simp
qed

subsection \<open>Views, transposes and row blocks of \<^verbatim>\<open>convertToTropterIterate\<close>\<close>

lemma Map_transpose_Inr:
  assumes "Map_transpose src numTimes n = Inr b"
  shows "numTimes * n \<le> length (elts src) \<and> nrow b = n \<and> ncol b = numTimes
         \<and> length (elts b) = n * numTimes
         \<and> (\<forall>t<numTimes. \<forall>i<n. elts b ! (t * n + i) = elts src ! (i * numTimes + t))"
proof -
  from assms have le: "numTimes * n \<le> length (elts src)"
    and b: "b = transpose_matrix \<lparr>nrow = numTimes, ncol = n, elts = take (numTimes * n) (elts src)\<rparr>"
    by (auto simp: Map_transpose_def Map_matrix_def and_then_Inr_iff split: if_splits)
  have "elts b ! (t * n + i) = elts src ! (i * numTimes + t)" if "t < numTimes" "i < n" for t i
  proof -
    have "i * numTimes + t < numTimes * n" using that by (rule offset_bound)
    then show ?thesis using that
      by (simp add: b transpose_matrix_def nth_concat_grid)
  qed
  then show ?thesis using le by (simp add: b transpose_matrix_def length_concat_grid mult.commute)
qed

lemma Map_transpose_total:
  assumes "numTimes * n \<le> length (elts src)"
  shows "\<exists>b. Map_transpose src numTimes n = Inr b"
  using assms by (simp add: Map_transpose_def Map_matrix_def and_then_def)

lemma assign_rows_Inr:
  assumes "assign_rows first k blk dst = Inr d"
  shows "nrow d = nrow dst \<and> ncol d = ncol dst \<and> length (elts d) = length (elts dst)
    \<and> first + k \<le> nrow dst \<and> length (elts dst) = nrow dst * ncol dst
    \<and> (\<forall>t<ncol dst. \<forall>i<nrow dst. elts d ! (t * nrow dst + i) =
          (if first \<le> i \<and> i < first + k then elts blk ! (t * k + (i - first))
           else elts dst ! (t * nrow dst + i)))"
proof -
  from assms have c: "first + k \<le> nrow dst" "length (elts dst) = nrow dst * ncol dst"
    and d: "d = dst\<lparr>elts :=
                  map (\<lambda>p. if first \<le> p mod nrow dst \<and> p mod nrow dst < first + k
                           then elts blk ! ((p div nrow dst) * k + (p mod nrow dst - first))
                           else elts dst ! p)
                      [0..<length (elts dst)]\<rparr>"
    by (auto simp: assign_rows_def split: if_splits)
  have "elts d ! (t * nrow dst + i) =
          (if first \<le> i \<and> i < first + k then elts blk ! (t * k + (i - first))
           else elts dst ! (t * nrow dst + i))" if "t < ncol dst" "i < nrow dst" for t i
  proof -
    have "t * nrow dst + i < length (elts dst)" using that c(2) by (simp add: offset_bound)
    then show ?thesis using that by (simp add: d)
  qed
  then show ?thesis using c by (simp add: d)
qed

lemma assign_rows_total:
  assumes "first + k \<le> nrow dst" "nrow blk = k" "ncol blk = ncol dst"
    "length (elts blk) = k * ncol dst" "length (elts dst) = nrow dst * ncol dst"
  shows "\<exists>d. assign_rows first k blk dst = Inr d"
  using assms by (simp add: assign_rows_def)

lemma transpose_channels_Inr:
  assumes "transpose_channels uninit numTimes n src = Inr b"
  shows "nrow b = n \<and> ncol b = numTimes \<and> length (elts b) = n * numTimes
         \<and> (\<forall>t<numTimes. \<forall>i<n. elts b ! (t * n + i) = elts src ! (i * numTimes + t))
         \<and> (n \<noteq> 0 \<longrightarrow> numTimes * n \<le> length (elts src))"
proof (cases "n = 0")
  case True
  with assms show ?thesis by (auto simp: transpose_channels_def resize_def)
next
  case False
  with assms have "Map_transpose src numTimes n = Inr b" by (simp add: transpose_channels_def)
  from Map_transpose_Inr [OF this] show ?thesis by simp
qed

lemma transpose_channels_total:
  assumes "n \<noteq> 0 \<Longrightarrow> numTimes * n \<le> length (elts src)"
  shows "\<exists>b. transpose_channels uninit numTimes n src = Inr b"
  using assms Map_transpose_total [of numTimes n src]
  by (auto simp: transpose_channels_def)

lemma transpose_channels_columns:
  assumes run: "transpose_channels uninit numTimes (length names) src = Inr b"
    and ok: "channels_ok numTimes names src"
  shows "columns_are_rows src b 0 (length names) numTimes"
  unfolding columns_are_rows_def
proof (intro allI impI)
  fix itime i assume ti: "itime < numTimes" "i < length names"
  note b = transpose_channels_Inr [OF run]
  have "itime * length names + i < length names * numTimes"
    using offset_bound [OF ti(2,1)] .
  then have "elt b i itime = Inr (elts b ! (itime * length names + i))"
    using b ti by (simp add: elt_def)
  moreover have "elts b ! (itime * length names + i) = elts src ! (i * numTimes + itime)"
    using b ti by simp
  ultimately show "case elt src itime i of Inl e \<Rightarrow> False
        | Inr v \<Rightarrow> elt b (0 + i) itime = Inr v"
    using channel_elt [OF ok ti] by simp
qed

lemma transpose_channels_whole:
  assumes run: "transpose_channels uninit numTimes (length names) src = Inr b"
    and ok: "channels_ok numTimes names src" and ne: "names \<noteq> []"
  shows "b = transpose_matrix src"
proof -
  from ok ne have s: "nrow src = numTimes" "ncol src = length names"
    "length (elts src) = numTimes * length names"
    by (auto simp: channels_ok_def)
  then have eq: "\<lparr>nrow = numTimes, ncol = length names,
              elts = take (numTimes * length names) (elts src)\<rparr> = src"
    by simp
  from run ne s have "b = transpose_matrix \<lparr>nrow = numTimes, ncol = length names,
              elts = take (numTimes * length names) (elts src)\<rparr>"
    by (simp add: transpose_channels_def Map_transpose_def Map_matrix_def and_then_def)
  then show ?thesis by (simp only: eq)
qed


lemma adjuncts_block_Inr:
  assumes run: "adjuncts_block uninit T nM nD M D = Inr A"
  shows "nrow A = nM + nD \<and> ncol A = T \<and> length (elts A) = (nM + nD) * T
    \<and> (nM \<noteq> 0 \<longrightarrow> T * nM \<le> length (elts M))
    \<and> (nD \<noteq> 0 \<longrightarrow> T * nD \<le> length (elts D))
    \<and> (\<forall>t<T. (\<forall>i<nM. elts A ! (t * (nM + nD) + i) = elts M ! (i * T + t))
             \<and> (\<forall>i<nD. elts A ! (t * (nM + nD) + (nM + i)) = elts D ! (i * T + t)))"
proof -
  let ?A0 = "resize uninit (nM + nD) T"
  from run obtain A1 where
    A1: "(if nM \<noteq> 0 then and_then (Map_transpose M T nM) (\<lambda>blk. topRows_assign nM blk ?A0)
          else Inr ?A0) = Inr A1"
    and A: "(if nD \<noteq> 0 then and_then (Map_transpose D T nD) (\<lambda>blk. bottomRows_assign nD blk A1)
          else Inr A1) = Inr A"
    by (auto simp: adjuncts_block_def Let_def and_then_Inr_iff)
  have s1: "nrow A1 = nM + nD \<and> ncol A1 = T \<and> length (elts A1) = (nM + nD) * T
      \<and> (nM \<noteq> 0 \<longrightarrow> T * nM \<le> length (elts M))
      \<and> (\<forall>t<T. \<forall>i<nM. elts A1 ! (t * (nM + nD) + i) = elts M ! (i * T + t))"
  proof (cases "nM = 0")
    case True
    with A1 show ?thesis by (auto simp: resize_def)
  next
    case False
    with A1 obtain blk where blk: "Map_transpose M T nM = Inr blk"
      and as: "assign_rows 0 nM blk ?A0 = Inr A1"
      by (auto simp: and_then_Inr_iff topRows_assign_def)
    note b = Map_transpose_Inr [OF blk]
    note a = assign_rows_Inr [OF as]
    have "elts A1 ! (t * (nM + nD) + i) = elts M ! (i * T + t)" if "t < T" "i < nM" for t i
    proof -
      have "elts A1 ! (t * nrow ?A0 + i) = elts blk ! (t * nM + (i - 0))"
        using a that by (simp add: resize_def)
      then show ?thesis using b that by (simp add: resize_def)
    qed
    then show ?thesis using a b by (simp add: resize_def)
  qed
  show ?thesis
  proof (cases "nD = 0")
    case True
    with A s1 show ?thesis by auto
  next
    case False
    with A obtain blk where blk: "Map_transpose D T nD = Inr blk"
      and as: "assign_rows (nrow A1 - nD) nD blk A1 = Inr A"
      by (auto simp: and_then_Inr_iff bottomRows_assign_def split: if_splits)
    note b = Map_transpose_Inr [OF blk]
    note a = assign_rows_Inr [OF as]
    have first: "nrow A1 - nD = nM" using s1 by simp
    have top: "elts A ! (t * (nM + nD) + i) = elts M ! (i * T + t)" if "t < T" "i < nM" for t i
    proof -
      have "elts A ! (t * nrow A1 + i) = elts A1 ! (t * nrow A1 + i)"
        using a that s1 first by simp
      then show ?thesis using s1 that by simp
    qed
    have bot: "elts A ! (t * (nM + nD) + (nM + i)) = elts D ! (i * T + t)" if "t < T" "i < nD" for t i
    proof -
      have "elts A ! (t * nrow A1 + (nM + i)) = elts blk ! (t * nD + (nM + i - nM))"
        using a that s1 first by simp
      then show ?thesis using s1 b that by simp
    qed
    show ?thesis using a b s1 top bot by simp
  qed
qed

lemma adjuncts_block_total:
  assumes "nM \<noteq> 0 \<Longrightarrow> T * nM \<le> length (elts M)" "nD \<noteq> 0 \<Longrightarrow> T * nD \<le> length (elts D)"
  shows "\<exists>A. adjuncts_block uninit T nM nD M D = Inr A"
proof -
  let ?A0 = "resize uninit (nM + nD) T"
  have "\<exists>A1. (if nM \<noteq> 0 then and_then (Map_transpose M T nM) (\<lambda>blk. topRows_assign nM blk ?A0)
          else Inr ?A0) = Inr A1 \<and> nrow A1 = nM + nD \<and> ncol A1 = T
          \<and> length (elts A1) = (nM + nD) * T"
  proof (cases "nM = 0")
    case True
    then show ?thesis by (simp add: resize_def)
  next
    case False
    with assms(1) obtain blk where blk: "Map_transpose M T nM = Inr blk"
      using Map_transpose_total by blast
    note b = Map_transpose_Inr [OF blk]
    obtain A1 where as: "assign_rows 0 nM blk ?A0 = Inr A1"
      using assign_rows_total [of 0 nM ?A0 blk] b by (auto simp: resize_def)
    note a = assign_rows_Inr [OF as]
    show ?thesis using False blk as a
      by (simp add: and_then_def topRows_assign_def resize_def)
  qed
  then obtain A1 where A1: "(if nM \<noteq> 0 then and_then (Map_transpose M T nM)
      (\<lambda>blk. topRows_assign nM blk ?A0) else Inr ?A0) = Inr A1"
    and s1: "nrow A1 = nM + nD" "ncol A1 = T" "length (elts A1) = (nM + nD) * T" by blast
  have "\<exists>A. (if nD \<noteq> 0 then and_then (Map_transpose D T nD) (\<lambda>blk. bottomRows_assign nD blk A1)
          else Inr A1) = Inr A"
  proof (cases "nD = 0")
    case True
    then show ?thesis by simp
  next
    case False
    with assms(2) obtain blk where blk: "Map_transpose D T nD = Inr blk"
      using Map_transpose_total by blast
    note b = Map_transpose_Inr [OF blk]
    obtain A where as: "assign_rows (nrow A1 - nD) nD blk A1 = Inr A"
      using assign_rows_total [of "nrow A1 - nD" nD A1 blk] b s1 by auto
    show ?thesis using False blk as s1
      by (simp add: and_then_def bottomRows_assign_def)
  qed
  with A1 show ?thesis by (auto simp: adjuncts_block_def Let_def and_then_def)
qed

lemma adjuncts_block_columns:
  assumes run: "adjuncts_block uninit numTimes (length ms) (length ds) M D = Inr A"
    and okM: "channels_ok numTimes ms M" and okD: "channels_ok numTimes ds D"
  shows "columns_are_rows M A 0 (length ms) numTimes
         \<and> columns_are_rows D A (length ms) (length ds) numTimes"
proof -
  note a = adjuncts_block_Inr [OF run]
  have inA: "elt A r t = Inr (elts A ! (t * (length ms + length ds) + r))"
    if "t < numTimes" "r < length ms + length ds" for r t
  proof -
    have "t * (length ms + length ds) + r < (length ms + length ds) * numTimes"
      using offset_bound [OF that(2,1)] .
    then show ?thesis using a that by (simp add: elt_def)
  qed
  have top: "case elt M itime i of Inl e \<Rightarrow> False | Inr v \<Rightarrow> elt A (0 + i) itime = Inr v"
    if "itime < numTimes" "i < length ms" for itime i
    using channel_elt [OF okM that] inA [of itime i] a that by simp
  have bot: "case elt D itime i of Inl e \<Rightarrow> False
             | Inr v \<Rightarrow> elt A (length ms + i) itime = Inr v"
    if "itime < numTimes" "i < length ds" for itime i
    using channel_elt [OF okD that] inA [of itime "length ms + i"] a that by simp
  show ?thesis using top bot by (simp add: columns_are_rows_def)
qed




subsection \<open>What a successful conversion returns, and when it succeeds\<close>

lemma convertIterateTropterToMuco_Inr:
  assumes "convertIterateTropterToMuco past_end uninit this tropSol = Inr r"
  shows "0 \<le> m_mpSum this"
    and "m_mpSum this \<le> int (length (adjunct_names tropSol))"
    and "getTime r = time tropSol"
    and "getStateNames r = state_names tropSol"
    and "getControlNames r = control_names tropSol"
    and "getMultiplierNames r = take (nat (m_mpSum this)) (adjunct_names tropSol)"
    and "getDerivativeNames r = drop (nat (m_mpSum this)) (adjunct_names tropSol)"
    and "getParameterNames r = parameter_names tropSol"
    and "copy_channels uninit (length (time tropSol)) (length (state_names tropSol)) 0
           (states tropSol) = Inr (getStatesTrajectory r)"
    and "copy_channels uninit (length (time tropSol)) (length (control_names tropSol)) 0
           (controls tropSol) = Inr (getControlsTrajectory r)"
    and "copy_channels uninit (length (time tropSol)) (nat (m_mpSum this)) 0
           (adjuncts tropSol) = Inr (getMultipliersTrajectory r)"
    and "copy_channels uninit (length (time tropSol)) (nat (tropSol_numDerivatives this tropSol))
           (nat (m_mpSum this)) (adjuncts tropSol) = Inr (getDerivativesTrajectory r)"
    and "length (parameter_names tropSol) \<le> length (parameters tropSol)"
    and "getParameters r = take (length (parameter_names tropSol)) (parameters tropSol)"
proof -
  let ?nM = "nat (m_mpSum this)"
  let ?nD = "nat (tropSol_numDerivatives this tropSol)"
  from assms obtain ms ds s c m d p where
    mp: "0 \<le> m_mpSum this" and nd: "0 \<le> tropSol_numDerivatives this tropSol"
    and ms: "copy_n past_end (adjunct_names tropSol) 0 ?nM = Inr ms"
    and ds: "copy_n past_end (adjunct_names tropSol) ?nM ?nD = Inr ds"
    and s: "copy_channels uninit (length (time tropSol)) (length (state_names tropSol)) 0
           (states tropSol) = Inr s"
    and c: "copy_channels uninit (length (time tropSol)) (length (control_names tropSol)) 0
           (controls tropSol) = Inr c"
    and m: "copy_channels uninit (length (time tropSol)) ?nM 0 (adjuncts tropSol) = Inr m"
    and d: "copy_channels uninit (length (time tropSol)) ?nD ?nM (adjuncts tropSol) = Inr d"
    and p: "vector_from_data (length (parameter_names tropSol)) (parameters tropSol) = Inr p"
    and r: "r = \<lparr>getTime = time tropSol,
           getStateNames = state_names tropSol,
           getControlNames = control_names tropSol,
           getMultiplierNames = ms,
           getDerivativeNames = ds,
           getParameterNames = parameter_names tropSol,
           getStatesTrajectory = s,
           getControlsTrajectory = c,
           getMultipliersTrajectory = m,
           getDerivativesTrajectory = d,
           getParameters = p\<rparr>"
    by (auto simp: convertIterateTropterToMuco_def Let_def and_then_Inr_iff
        vector_from_data_def split: if_splits)
  from mp nd have le: "m_mpSum this \<le> int (length (adjunct_names tropSol))"
    and sum: "?nM + ?nD = length (adjunct_names tropSol)"
    by (simp_all add: tropSol_numDerivatives_def)
  from ms le mp have ms': "ms = take ?nM (adjunct_names tropSol)"
    by (simp add: copy_n_in_range)
  from ds sum have ds': "ds = drop ?nM (adjunct_names tropSol)"
    by (simp add: copy_n_in_range)
  show "0 \<le> m_mpSum this"
    and "m_mpSum this \<le> int (length (adjunct_names tropSol))"
    and "getTime r = time tropSol"
    and "getStateNames r = state_names tropSol"
    and "getControlNames r = control_names tropSol"
    and "getMultiplierNames r = take (nat (m_mpSum this)) (adjunct_names tropSol)"
    and "getDerivativeNames r = drop (nat (m_mpSum this)) (adjunct_names tropSol)"
    and "getParameterNames r = parameter_names tropSol"
    and "copy_channels uninit (length (time tropSol)) (length (state_names tropSol)) 0
           (states tropSol) = Inr (getStatesTrajectory r)"
    and "copy_channels uninit (length (time tropSol)) (length (control_names tropSol)) 0
           (controls tropSol) = Inr (getControlsTrajectory r)"
    and "copy_channels uninit (length (time tropSol)) (nat (m_mpSum this)) 0
           (adjuncts tropSol) = Inr (getMultipliersTrajectory r)"
    and "copy_channels uninit (length (time tropSol)) (nat (tropSol_numDerivatives this tropSol))
           (nat (m_mpSum this)) (adjuncts tropSol) = Inr (getDerivativesTrajectory r)"
    and "length (parameter_names tropSol) \<le> length (parameters tropSol)"
    and "getParameters r = take (length (parameter_names tropSol)) (parameters tropSol)"
    using mp le ms' ds' s c m d p r
    by (auto simp: vector_from_data_def split: if_splits)
qed

lemma convertIterateTropterToMuco_total:
  assumes "Iterate_ok this tropSol"
  shows "\<exists>r. convertIterateTropterToMuco past_end uninit this tropSol = Inr r"
proof -
  let ?T = "length (time tropSol)"
  let ?nM = "nat (m_mpSum this)"
  let ?nD = "nat (tropSol_numDerivatives this tropSol)"
  from assms have mp: "0 \<le> m_mpSum this" "m_mpSum this \<le> int (length (adjunct_names tropSol))"
    and fs: "fits (states tropSol) (length (state_names tropSol)) ?T"
    and fc: "fits (controls tropSol) (length (control_names tropSol)) ?T"
    and fa: "fits (adjuncts tropSol) (length (adjunct_names tropSol)) ?T"
    and pp: "length (parameter_names tropSol) \<le> length (parameters tropSol)"
    by (simp_all add: Iterate_ok_def)
  have nd: "0 \<le> tropSol_numDerivatives this tropSol" "?nM + ?nD = length (adjunct_names tropSol)"
    using mp by (simp_all add: tropSol_numDerivatives_def)
  obtain s where s: "copy_channels uninit ?T (length (state_names tropSol)) 0 (states tropSol) = Inr s"
    using copy_channels_total [of "length (state_names tropSol)" 0 "states tropSol" ?T uninit] fs
    by (auto simp: fits_def)
  obtain c where c: "copy_channels uninit ?T (length (control_names tropSol)) 0 (controls tropSol) = Inr c"
    using copy_channels_total [of "length (control_names tropSol)" 0 "controls tropSol" ?T uninit] fc
    by (auto simp: fits_def)
  obtain m where m: "copy_channels uninit ?T ?nM 0 (adjuncts tropSol) = Inr m"
    using copy_channels_total [of ?nM 0 "adjuncts tropSol" ?T uninit] fa nd(2)
    by (auto simp: fits_def)
  obtain d where d: "copy_channels uninit ?T ?nD ?nM (adjuncts tropSol) = Inr d"
    using copy_channels_total [of ?nD ?nM "adjuncts tropSol" ?T uninit] fa nd(2)
    by (auto simp: fits_def)
  show ?thesis
    using mp nd pp s c m d
    by (simp add: convertIterateTropterToMuco_def Let_def and_then_def copy_n_in_range
        vector_from_data_def)
qed

lemma convertToTropterIterate_Inr:
  assumes "convertToTropterIterate empty' uninit this mucoIter = Inr t"
    and "\<not> empty' mucoIter"
  shows "time t = getTime mucoIter"
    and "state_names t = getStateNames mucoIter"
    and "control_names t = getControlNames mucoIter"
    and "adjunct_names t = getMultiplierNames mucoIter @ getDerivativeNames mucoIter"
    and "parameter_names t = getParameterNames mucoIter"
    and "transpose_channels uninit (length (getTime mucoIter)) (length (getStateNames mucoIter))
           (getStatesTrajectory mucoIter) = Inr (states t)"
    and "transpose_channels uninit (length (getTime mucoIter)) (length (getControlNames mucoIter))
           (getControlsTrajectory mucoIter) = Inr (controls t)"
    and "adjuncts_block uninit (length (getTime mucoIter)) (length (getMultiplierNames mucoIter))
           (length (getDerivativeNames mucoIter)) (getMultipliersTrajectory mucoIter)
           (getDerivativesTrajectory mucoIter) = Inr (adjuncts t)"
    and "length (getParameterNames mucoIter) \<le> length (getParameters mucoIter)
         \<or> getParameterNames mucoIter = []"
    and "parameters t = take (length (getParameterNames mucoIter)) (getParameters mucoIter)"
proof -
  from assms obtain time' s c a p where
    "Map_vector (getTime mucoIter) (length (getTime mucoIter)) = Inr time'"
    "transpose_channels uninit (length (getTime mucoIter)) (length (getStateNames mucoIter))
           (getStatesTrajectory mucoIter) = Inr s"
    "transpose_channels uninit (length (getTime mucoIter)) (length (getControlNames mucoIter))
           (getControlsTrajectory mucoIter) = Inr c"
    "adjuncts_block uninit (length (getTime mucoIter)) (length (getMultiplierNames mucoIter))
           (length (getDerivativeNames mucoIter)) (getMultipliersTrajectory mucoIter)
           (getDerivativesTrajectory mucoIter) = Inr a"
    "(if length (getParameterNames mucoIter) \<noteq> 0
      then Map_vector (getParameters mucoIter) (length (getParameterNames mucoIter))
      else Inr []) = Inr p"
    "t = \<lparr>time = time', state_names = getStateNames mucoIter,
          control_names = getControlNames mucoIter,
          adjunct_names = getMultiplierNames mucoIter @ getDerivativeNames mucoIter,
          parameter_names = getParameterNames mucoIter,
          states = s, controls = c, adjuncts = a, parameters = p\<rparr>"
    by (simp add: convertToTropterIterate_def Let_def and_then_Inr_iff) blast
  then show "time t = getTime mucoIter"
    and "state_names t = getStateNames mucoIter"
    and "control_names t = getControlNames mucoIter"
    and "adjunct_names t = getMultiplierNames mucoIter @ getDerivativeNames mucoIter"
    and "parameter_names t = getParameterNames mucoIter"
    and "transpose_channels uninit (length (getTime mucoIter)) (length (getStateNames mucoIter))
           (getStatesTrajectory mucoIter) = Inr (states t)"
    and "transpose_channels uninit (length (getTime mucoIter)) (length (getControlNames mucoIter))
           (getControlsTrajectory mucoIter) = Inr (controls t)"
    and "adjuncts_block uninit (length (getTime mucoIter)) (length (getMultiplierNames mucoIter))
           (length (getDerivativeNames mucoIter)) (getMultipliersTrajectory mucoIter)
           (getDerivativesTrajectory mucoIter) = Inr (adjuncts t)"
    and "length (getParameterNames mucoIter) \<le> length (getParameters mucoIter)
         \<or> getParameterNames mucoIter = []"
    and "parameters t = take (length (getParameterNames mucoIter)) (getParameters mucoIter)"
    by (auto simp: Map_vector_def split: if_splits)
qed

lemma convertToTropterIterate_total:
  assumes "MucoIterate_ok mucoIter"
  shows "\<exists>t. convertToTropterIterate empty' uninit this mucoIter = Inr t"
proof (cases "empty' mucoIter")
  case True
  then show ?thesis by (simp add: convertToTropterIterate_def)
next
  case False
  let ?T = "length (getTime mucoIter)"
  have len: "?T * length names \<le> length (elts m)" if "channels_ok ?T names m" "names \<noteq> []"
    for names and m :: "'a matrix"
    using that by (auto simp: channels_ok_def)
  from assms have ok: "channels_ok ?T (getStateNames mucoIter) (getStatesTrajectory mucoIter)"
    "channels_ok ?T (getControlNames mucoIter) (getControlsTrajectory mucoIter)"
    "channels_ok ?T (getMultiplierNames mucoIter) (getMultipliersTrajectory mucoIter)"
    "channels_ok ?T (getDerivativeNames mucoIter) (getDerivativesTrajectory mucoIter)"
    "length (getParameters mucoIter) = length (getParameterNames mucoIter)"
    by (simp_all add: MucoIterate_ok_def)
  obtain s where s: "transpose_channels uninit ?T (length (getStateNames mucoIter))
      (getStatesTrajectory mucoIter) = Inr s"
    using transpose_channels_total [of "length (getStateNames mucoIter)" ?T
        "getStatesTrajectory mucoIter" uninit] len [OF ok(1)] by auto
  obtain c where c: "transpose_channels uninit ?T (length (getControlNames mucoIter))
      (getControlsTrajectory mucoIter) = Inr c"
    using transpose_channels_total [of "length (getControlNames mucoIter)" ?T
        "getControlsTrajectory mucoIter" uninit] len [OF ok(2)] by auto
  obtain a where a: "adjuncts_block uninit ?T (length (getMultiplierNames mucoIter))
           (length (getDerivativeNames mucoIter)) (getMultipliersTrajectory mucoIter)
           (getDerivativesTrajectory mucoIter) = Inr a"
    using adjuncts_block_total [of "length (getMultiplierNames mucoIter)" ?T
        "getMultipliersTrajectory mucoIter" "length (getDerivativeNames mucoIter)"
        "getDerivativesTrajectory mucoIter" uninit] len [OF ok(3)] len [OF ok(4)] by auto
  show ?thesis using False s c a ok(5)
    by (simp add: convertToTropterIterate_def Let_def and_then_def Map_vector_def)
qed

subsection \<open>The sample, converted\<close>

lemma sample_forward:
  "convertIterateTropterToMuco past_faults 0 sample_problem sample_tropSol = Inr sample_mucoIter"
  by code_simp

lemma sample_backward:
  "convertToTropterIterate no_values 0 sample_problem sample_mucoIter = Inr sample_tropSol"
  by code_simp

lemma convertIterateTropterToMuco_assert:
  "convertIterateTropterToMuco past_end uninit this tropSol = Inl AssertionFailed \<longleftrightarrow>
     0 \<le> m_mpSum this
     \<and> copy_n past_end (adjunct_names tropSol) 0 (nat (m_mpSum this)) \<noteq> Inl OutOfRange
     \<and> tropSol_numDerivatives this tropSol < 0"
proof (cases "0 \<le> m_mpSum this")
  case False
  then show ?thesis
    by (simp add: convertIterateTropterToMuco_def Let_def and_then_def vector_from_data_def)
next
  case mp: True
  show ?thesis
  proof (cases "copy_n past_end (adjunct_names tropSol) 0 (nat (m_mpSum this))")
    case (Inl e)
    with copy_n_error [OF Inl] mp show ?thesis
      by (simp add: convertIterateTropterToMuco_def Let_def and_then_def vector_from_data_def)
  next
    case ms: (Inr ms)
    show ?thesis
    proof (cases "tropSol_numDerivatives this tropSol < 0")
      case True
      with mp ms show ?thesis
        by (simp add: convertIterateTropterToMuco_def Let_def and_then_def
            vector_from_data_def)
    next
      case False
      have "convertIterateTropterToMuco past_end uninit this tropSol \<noteq> Inl AssertionFailed"
      proof
        assume "convertIterateTropterToMuco past_end uninit this tropSol = Inl AssertionFailed"
        with mp ms False show False
          by (auto simp: convertIterateTropterToMuco_def Let_def and_then_Inl_iff
              vector_from_data_def split: if_splits
              dest: copy_channels_error copy_n_error)
      qed
      with False show ?thesis by simp
    qed
  qed
qed

subsection \<open>The runs, statement by statement\<close>










section \<open>The claims\<close>

text \<open>
  C1. In \<^verbatim>\<open>convertToTropterIterate\<close> the combined adjunct block holds the multipliers
  first and the derivatives second: \<^verbatim>\<open>adjunct_names\<close> is the multiplier names followed by
  the derivative names, and at every time index the first \<open>numMultipliers\<close> rows of
  \<^verbatim>\<open>adjuncts\<close> are the multiplier columns and the next \<open>numDerivatives\<close> rows are the
  derivative columns.
\<close>

theorem adjuncts_multipliers_first:
  assumes "\<not> empty' mucoIter" and "MucoIterate_ok mucoIter"
  shows "\<exists>t. convertToTropterIterate empty' uninit this mucoIter = Inr t
    \<and> adjunct_names t = getMultiplierNames mucoIter @ getDerivativeNames mucoIter
    \<and> nrow (adjuncts t) =
          length (getMultiplierNames mucoIter) + length (getDerivativeNames mucoIter)
    \<and> ncol (adjuncts t) = length (getTime mucoIter)
    \<and> columns_are_rows (getMultipliersTrajectory mucoIter) (adjuncts t) 0
          (length (getMultiplierNames mucoIter)) (length (getTime mucoIter))
    \<and> columns_are_rows (getDerivativesTrajectory mucoIter) (adjuncts t)
          (length (getMultiplierNames mucoIter)) (length (getDerivativeNames mucoIter))
          (length (getTime mucoIter))"
proof -
  from convertToTropterIterate_total [OF assms(2)]
  obtain t where t: "convertToTropterIterate empty' uninit this mucoIter = Inr t" by blast
  note inv = convertToTropterIterate_Inr [OF t assms(1)]
  from assms(2) have ok:
    "channels_ok (length (getTime mucoIter)) (getMultiplierNames mucoIter)
       (getMultipliersTrajectory mucoIter)"
    "channels_ok (length (getTime mucoIter)) (getDerivativeNames mucoIter)
       (getDerivativesTrajectory mucoIter)"
    by (simp_all add: MucoIterate_ok_def)
  from adjuncts_block_columns [OF inv(8) ok] adjuncts_block_Inr [OF inv(8)] inv(4) t
  show ?thesis by simp
qed

theorem adjuncts_multipliers_first_witness:
  "\<not> no_values sample_mucoIter \<and> MucoIterate_ok sample_mucoIter
   \<and> (\<exists>t. convertToTropterIterate no_values 0 sample_problem sample_mucoIter = Inr t
    \<and> adjunct_names t = getMultiplierNames sample_mucoIter @ getDerivativeNames sample_mucoIter
    \<and> columns_are_rows (getMultipliersTrajectory sample_mucoIter) (adjuncts t) 0
          (length (getMultiplierNames sample_mucoIter)) (length (getTime sample_mucoIter))
    \<and> columns_are_rows (getDerivativesTrajectory sample_mucoIter) (adjuncts t)
          (length (getMultiplierNames sample_mucoIter))
          (length (getDerivativeNames sample_mucoIter)) (length (getTime sample_mucoIter)))"
proof -
  have h1: "\<not> no_values sample_mucoIter" by (simp add: no_values_def sample_mucoIter_def)
  have h2: "MucoIterate_ok sample_mucoIter"
    by (simp add: MucoIterate_ok_def channels_ok_def sample_mucoIter_def)
  from adjuncts_multipliers_first [of no_values sample_mucoIter 0 sample_problem, OF h1 h2]
    h1 h2
  show ?thesis by blast
qed

text \<open>
  C2 (amended). An empty channel group gives a matrix without elements whose shape
  depends on the direction. \<^verbatim>\<open>convertIterateTropterToMuco\<close> returns the default-constructed
  \<open>0 \<times> 0\<close> matrix for an empty group of states, controls, multipliers or derivatives,
  and an empty parameter vector. \<^verbatim>\<open>convertToTropterIterate\<close>, for an iterate that is not
  empty, returns a \<open>0 \<times> numTimes\<close> matrix for an empty group of states or controls, and
  for the adjuncts when there is neither a multiplier nor a derivative, and an empty
  parameter vector.
\<close>

theorem empty_group_shapes:
  assumes "convertIterateTropterToMuco past_end uninit this tropSol = Inr r"
    and "convertToTropterIterate empty' uninit' this' mucoIter = Inr t"
    and "\<not> empty' mucoIter"
  shows "(state_names tropSol = [] \<longrightarrow> getStatesTrajectory r = empty_matrix)
    \<and> (control_names tropSol = [] \<longrightarrow> getControlsTrajectory r = empty_matrix)
    \<and> (m_mpSum this = 0 \<longrightarrow> getMultipliersTrajectory r = empty_matrix)
    \<and> (int (length (adjunct_names tropSol)) = m_mpSum this \<longrightarrow>
          getDerivativesTrajectory r = empty_matrix)
    \<and> (parameter_names tropSol = [] \<longrightarrow> getParameters r = [])
    \<and> (getStateNames mucoIter = [] \<longrightarrow>
          states t = \<lparr>nrow = 0, ncol = length (getTime mucoIter), elts = []\<rparr>)
    \<and> (getControlNames mucoIter = [] \<longrightarrow>
          controls t = \<lparr>nrow = 0, ncol = length (getTime mucoIter), elts = []\<rparr>)
    \<and> (getMultiplierNames mucoIter = [] \<and> getDerivativeNames mucoIter = [] \<longrightarrow>
          adjuncts t = \<lparr>nrow = 0, ncol = length (getTime mucoIter), elts = []\<rparr>)
    \<and> (getParameterNames mucoIter = [] \<longrightarrow> parameters t = [])"
proof -
  note f = convertIterateTropterToMuco_Inr [OF assms(1)]
  note b = convertToTropterIterate_Inr [OF assms(2,3)]
  have none: "m = empty_matrix"
    if "copy_channels uninit numTimes 0 offset src = Inr m" for m src numTimes offset
    using that by (simp add: copy_channels_def)
  have fwd: "state_names tropSol = [] \<longrightarrow> getStatesTrajectory r = empty_matrix"
    "control_names tropSol = [] \<longrightarrow> getControlsTrajectory r = empty_matrix"
    "m_mpSum this = 0 \<longrightarrow> getMultipliersTrajectory r = empty_matrix"
    "int (length (adjunct_names tropSol)) = m_mpSum this \<longrightarrow>
          getDerivativesTrajectory r = empty_matrix"
    "parameter_names tropSol = [] \<longrightarrow> getParameters r = []"
    using f(9,10,11,12,14) none by (auto simp: tropSol_numDerivatives_def)
  have bwd: "getStateNames mucoIter = [] \<longrightarrow>
          states t = \<lparr>nrow = 0, ncol = length (getTime mucoIter), elts = []\<rparr>"
    "getControlNames mucoIter = [] \<longrightarrow>
          controls t = \<lparr>nrow = 0, ncol = length (getTime mucoIter), elts = []\<rparr>"
    "getMultiplierNames mucoIter = [] \<and> getDerivativeNames mucoIter = [] \<longrightarrow>
          adjuncts t = \<lparr>nrow = 0, ncol = length (getTime mucoIter), elts = []\<rparr>"
    "getParameterNames mucoIter = [] \<longrightarrow> parameters t = []"
    using b(6,7,8,10)
    by (auto simp: transpose_channels_def adjuncts_block_def resize_def Let_def and_then_def)
  from fwd bwd show ?thesis by blast
qed

theorem empty_group_shapes_witness:
  "convertIterateTropterToMuco past_faults 0 sample_problem sample_tropSol = Inr sample_mucoIter
   \<and> convertToTropterIterate no_values 0 sample_problem sample_mucoIter = Inr sample_tropSol
   \<and> \<not> no_values sample_mucoIter
   \<and> control_names sample_tropSol = []
   \<and> getControlsTrajectory sample_mucoIter = empty_matrix
   \<and> getControlNames sample_mucoIter = []
   \<and> controls sample_tropSol =
        \<lparr>nrow = 0, ncol = length (getTime sample_mucoIter), elts = []\<rparr>"
proof -
  have h3: "\<not> no_values sample_mucoIter" by (simp add: no_values_def sample_mucoIter_def)
  have e: "control_names sample_tropSol = []" "getControlNames sample_mucoIter = []"
    by (simp_all add: sample_tropSol_def sample_mucoIter_def)
  from empty_group_shapes [OF sample_forward sample_backward h3] sample_forward
    sample_backward h3 e
  show ?thesis by blast
qed

text \<open>
  C2 as the spec states it fails on the sample, which has no control. Toward Muscollo the
  controls come back \<open>0 \<times> 0\<close> although there are two time samples: zero-sized along
  both dimensions. Toward tropter they come back \<open>0 \<times> 2\<close>: zero-sized along the channel
  dimension only, and so a matrix of two empty columns.
\<close>

theorem empty_group_shapes_counterexample:
  "convertIterateTropterToMuco past_faults 0 sample_problem sample_tropSol = Inr sample_mucoIter
   \<and> control_names sample_tropSol = []
   \<and> length (time sample_tropSol) = 2
   \<and> getControlsTrajectory sample_mucoIter = \<lparr>nrow = 0, ncol = 0, elts = []\<rparr>
   \<and> \<not> zero_sized_along_channels_only_Muco (length (time sample_tropSol))
         (getControlsTrajectory sample_mucoIter)
   \<and> convertToTropterIterate no_values 0 sample_problem sample_mucoIter = Inr sample_tropSol
   \<and> \<not> no_values sample_mucoIter
   \<and> getControlNames sample_mucoIter = []
   \<and> controls sample_tropSol = \<lparr>nrow = 0, ncol = 2, elts = []\<rparr>
   \<and> zero_sized_along_channels_only_tropter (length (getTime sample_mucoIter))
         (controls sample_tropSol)
   \<and> degenerate (controls sample_tropSol)"
  using sample_forward sample_backward
  by (simp add: sample_tropSol_def sample_mucoIter_def no_values_def degenerate_def
      zero_sized_along_channels_only_Muco_def zero_sized_along_channels_only_tropter_def)

text \<open>
  C3. For a well-formed Muscollo iterate that is not empty and whose multiplier-name count
  is \<^verbatim>\<open>m_mpSum\<close>, \<^verbatim>\<open>convertToTropterIterate\<close> followed by \<^verbatim>\<open>convertIterateTropterToMuco\<close>
  returns an iterate with the same time vector, the same five name lists, the same
  parameters and, in each matrix, the same columns holding the same values. The matrix of
  a group that has a channel comes back whole; the matrix of a group with no channel, which
  holds no value, comes back as the default \<open>0 \<times> 0\<close> matrix.
\<close>

theorem round_trip:
  assumes "\<not> empty' mucoIter"
    and "int (length (getMultiplierNames mucoIter)) = m_mpSum this"
    and "MucoIterate_ok mucoIter"
  shows "\<exists>t r. convertToTropterIterate empty' uninit this mucoIter = Inr t
    \<and> convertIterateTropterToMuco past_end uninit' this t = Inr r
    \<and> getTime r = getTime mucoIter
    \<and> getStateNames r = getStateNames mucoIter
    \<and> getControlNames r = getControlNames mucoIter
    \<and> getMultiplierNames r = getMultiplierNames mucoIter
    \<and> getDerivativeNames r = getDerivativeNames mucoIter
    \<and> getParameterNames r = getParameterNames mucoIter
    \<and> elts (getStatesTrajectory r) = elts (getStatesTrajectory mucoIter)
    \<and> ncol (getStatesTrajectory r) = ncol (getStatesTrajectory mucoIter)
    \<and> elts (getControlsTrajectory r) = elts (getControlsTrajectory mucoIter)
    \<and> ncol (getControlsTrajectory r) = ncol (getControlsTrajectory mucoIter)
    \<and> elts (getMultipliersTrajectory r) = elts (getMultipliersTrajectory mucoIter)
    \<and> ncol (getMultipliersTrajectory r) = ncol (getMultipliersTrajectory mucoIter)
    \<and> elts (getDerivativesTrajectory r) = elts (getDerivativesTrajectory mucoIter)
    \<and> ncol (getDerivativesTrajectory r) = ncol (getDerivativesTrajectory mucoIter)
    \<and> getParameters r = getParameters mucoIter
    \<and> (getStateNames mucoIter \<noteq> [] \<longrightarrow>
          getStatesTrajectory r = getStatesTrajectory mucoIter)
    \<and> (getControlNames mucoIter \<noteq> [] \<longrightarrow>
          getControlsTrajectory r = getControlsTrajectory mucoIter)
    \<and> (getMultiplierNames mucoIter \<noteq> [] \<longrightarrow>
          getMultipliersTrajectory r = getMultipliersTrajectory mucoIter)
    \<and> (getDerivativeNames mucoIter \<noteq> [] \<longrightarrow>
          getDerivativesTrajectory r = getDerivativesTrajectory mucoIter)"
proof -
  let ?T = "length (getTime mucoIter)"
  let ?ms = "getMultiplierNames mucoIter"
  let ?ds = "getDerivativeNames mucoIter"
  from assms(3) have ok:
    "channels_ok ?T (getStateNames mucoIter) (getStatesTrajectory mucoIter)"
    "channels_ok ?T (getControlNames mucoIter) (getControlsTrajectory mucoIter)"
    "channels_ok ?T ?ms (getMultipliersTrajectory mucoIter)"
    "channels_ok ?T ?ds (getDerivativesTrajectory mucoIter)"
    and np: "length (getParameters mucoIter) = length (getParameterNames mucoIter)"
    by (simp_all add: MucoIterate_ok_def)
  from convertToTropterIterate_total [OF assms(3)]
  obtain t where t: "convertToTropterIterate empty' uninit this mucoIter = Inr t" by blast
  note b = convertToTropterIterate_Inr [OF t assms(1)]
  note ts = transpose_channels_Inr [OF b(6)]
  note tc = transpose_channels_Inr [OF b(7)]
  note ta = adjuncts_block_Inr [OF b(8)]
  have mp: "nat (m_mpSum this) = length ?ms" using assms(2) by (simp flip: assms(2))
  have "Iterate_ok this t"
    using b(1-5,10) ts tc ta np assms(2)
    by (simp add: Iterate_ok_def fits_def flip: assms(2))
  from convertIterateTropterToMuco_total [OF this]
  obtain r where r: "convertIterateTropterToMuco past_end uninit' this t = Inr r" by blast
  note f = convertIterateTropterToMuco_Inr [OF r]
  have nd: "nat (tropSol_numDerivatives this t) = length ?ds"
    using b(4) by (simp add: tropSol_numDerivatives_def flip: assms(2))
  note cs = transpose_channels_columns [OF b(6) ok(1)]
  note cc = transpose_channels_columns [OF b(7) ok(2)]
  note ca = adjuncts_block_columns [OF b(8) ok(3,4)]
  have S: "copy_channels uninit' ?T (length (getStateNames mucoIter)) 0 (states t)
             = Inr (getStatesTrajectory r)"
    using f(9) b(1,2) by simp
  have C: "copy_channels uninit' ?T (length (getControlNames mucoIter)) 0 (controls t)
             = Inr (getControlsTrajectory r)"
    using f(10) b(1,3) by simp
  have M: "copy_channels uninit' ?T (length ?ms) 0 (adjuncts t)
             = Inr (getMultipliersTrajectory r)"
    using f(11) b(1) mp by simp
  have D: "copy_channels uninit' ?T (length ?ds) (length ?ms) (adjuncts t)
             = Inr (getDerivativesTrajectory r)"
    using f(12) b(1) mp nd by simp
  note copy_channels_undoes [OF S cs ok(1)] copy_channels_undoes [OF C cc ok(2)]
    copy_channels_undoes [OF M conjunct1 [OF ca] ok(3)]
    copy_channels_undoes [OF D conjunct2 [OF ca] ok(4)]
  moreover have "getTime r = getTime mucoIter" "getStateNames r = getStateNames mucoIter"
    "getControlNames r = getControlNames mucoIter"
    "getParameterNames r = getParameterNames mucoIter"
    using f(3,4,5,8) b(1,2,3,5) by simp_all
  moreover have "getMultiplierNames r = ?ms" "getDerivativeNames r = ?ds"
    using f(6,7) b(4) mp by simp_all
  moreover have "getParameters r = getParameters mucoIter"
    using f(14) b(5,10) np by simp
  ultimately show ?thesis using t r by blast
qed

theorem round_trip_witness:
  "\<not> no_values sample_mucoIter
   \<and> int (length (getMultiplierNames sample_mucoIter)) = m_mpSum sample_problem
   \<and> MucoIterate_ok sample_mucoIter
   \<and> (\<exists>t r. convertToTropterIterate no_values 0 sample_problem sample_mucoIter = Inr t
      \<and> convertIterateTropterToMuco past_faults 0 sample_problem t = Inr r
      \<and> getTime r = getTime sample_mucoIter
      \<and> getStateNames r = getStateNames sample_mucoIter
      \<and> getMultiplierNames r = getMultiplierNames sample_mucoIter
      \<and> getDerivativeNames r = getDerivativeNames sample_mucoIter
      \<and> getStatesTrajectory r = getStatesTrajectory sample_mucoIter
      \<and> getMultipliersTrajectory r = getMultipliersTrajectory sample_mucoIter
      \<and> getDerivativesTrajectory r = getDerivativesTrajectory sample_mucoIter
      \<and> elts (getControlsTrajectory r) = elts (getControlsTrajectory sample_mucoIter)
      \<and> getParameters r = getParameters sample_mucoIter)"
proof -
  have h1: "\<not> no_values sample_mucoIter" by (simp add: no_values_def sample_mucoIter_def)
  have h2: "int (length (getMultiplierNames sample_mucoIter)) = m_mpSum sample_problem"
    by (simp add: sample_mucoIter_def sample_problem_def)
  have h3: "MucoIterate_ok sample_mucoIter"
    by (simp add: MucoIterate_ok_def channels_ok_def sample_mucoIter_def)
  have ne: "getStateNames sample_mucoIter \<noteq> []" "getMultiplierNames sample_mucoIter \<noteq> []"
    "getDerivativeNames sample_mucoIter \<noteq> []"
    by (simp_all add: sample_mucoIter_def)
  from round_trip [where empty' = no_values and mucoIter = sample_mucoIter
      and this = sample_problem and uninit = 0 and uninit' = 0 and past_end = past_faults,
      OF h1 h2 h3] h1 h2 h3 ne
  show ?thesis by blast
qed

text \<open>
  C4. \<^verbatim>\<open>convertIterateTropterToMuco\<close> splits the adjuncts by \<^verbatim>\<open>m_mpSum\<close>: the first
  \<^verbatim>\<open>m_mpSum\<close> adjunct names and adjunct rows are the multiplier names and the columns of
  the multiplier matrix, and the remaining names and rows are the derivative names and the
  columns of the derivative matrix.
\<close>

theorem adjuncts_split_by_mpSum:
  assumes "convertIterateTropterToMuco past_end uninit this tropSol = Inr r"
  shows "getMultiplierNames r = take (nat (m_mpSum this)) (adjunct_names tropSol)
    \<and> getDerivativeNames r = drop (nat (m_mpSum this)) (adjunct_names tropSol)
    \<and> ncol (getMultipliersTrajectory r) = nat (m_mpSum this)
    \<and> ncol (getDerivativesTrajectory r) = length (adjunct_names tropSol) - nat (m_mpSum this)
    \<and> columns_are_rows (getMultipliersTrajectory r) (adjuncts tropSol) 0
          (nat (m_mpSum this)) (length (time tropSol))
    \<and> columns_are_rows (getDerivativesTrajectory r) (adjuncts tropSol) (nat (m_mpSum this))
          (length (adjunct_names tropSol) - nat (m_mpSum this)) (length (time tropSol))"
proof -
  let ?nM = "nat (m_mpSum this)"
  let ?nD = "nat (tropSol_numDerivatives this tropSol)"
  note inv = convertIterateTropterToMuco_Inr [OF assms]
  have nD: "?nD = length (adjunct_names tropSol) - ?nM"
    using inv(1,2) by (simp add: tropSol_numDerivatives_def)
  have "ncol (getMultipliersTrajectory r) = ?nM"
    using copy_channels_shape [OF inv(11)] by simp
  moreover have "ncol (getDerivativesTrajectory r) = ?nD"
    using copy_channels_shape [OF inv(12)] by simp
  moreover note copy_channels_columns [OF inv(11)] copy_channels_columns [OF inv(12)]
  ultimately show ?thesis using inv(6,7) unfolding nD by simp
qed

theorem adjuncts_split_by_mpSum_witness:
  "convertIterateTropterToMuco past_faults 0 sample_problem sample_tropSol = Inr sample_mucoIter
   \<and> getMultiplierNames sample_mucoIter = [''lambda'']
   \<and> getDerivativeNames sample_mucoIter = [''a0'', ''a1'']
   \<and> columns_are_rows (getMultipliersTrajectory sample_mucoIter) (adjuncts sample_tropSol) 0 1 2
   \<and> columns_are_rows (getDerivativesTrajectory sample_mucoIter) (adjuncts sample_tropSol) 1 2 2"
proof -
  have h: "convertIterateTropterToMuco past_faults 0 sample_problem sample_tropSol = Inr sample_mucoIter"
    by (rule sample_forward)
  from adjuncts_split_by_mpSum [OF h] h show ?thesis
    by (simp add: sample_problem_def sample_tropSol_def numeral_2_eq_2)
qed

text \<open>
  C5. Both conversions copy every channel by transposition. In the Muscollo iterate
  returned by \<^verbatim>\<open>convertIterateTropterToMuco\<close>, element \<open>(itime, i)\<close> of the states, controls,
  multipliers and derivatives is element \<open>(i, itime)\<close> of the tropter states and controls
  and of the two parts of the adjuncts. In the tropter iterate returned by
  \<^verbatim>\<open>convertToTropterIterate\<close> for a well-formed iterate that is not empty, the states and
  the controls are the transposes of the Muscollo matrices, and the rows of the adjuncts are
  the columns of the multipliers and of the derivatives.
\<close>

theorem channels_copied_by_transposition:
  assumes "convertIterateTropterToMuco past_end uninit this tropSol = Inr r"
    and "convertToTropterIterate empty' uninit' this' mucoIter = Inr t"
    and "\<not> empty' mucoIter" and "MucoIterate_ok mucoIter"
  shows "columns_are_rows (getStatesTrajectory r) (states tropSol) 0
           (length (state_names tropSol)) (length (time tropSol))
    \<and> columns_are_rows (getControlsTrajectory r) (controls tropSol) 0
           (length (control_names tropSol)) (length (time tropSol))
    \<and> columns_are_rows (getMultipliersTrajectory r) (adjuncts tropSol) 0
           (nat (m_mpSum this)) (length (time tropSol))
    \<and> columns_are_rows (getDerivativesTrajectory r) (adjuncts tropSol) (nat (m_mpSum this))
           (length (adjunct_names tropSol) - nat (m_mpSum this)) (length (time tropSol))
    \<and> columns_are_rows (getStatesTrajectory mucoIter) (states t) 0
           (length (getStateNames mucoIter)) (length (getTime mucoIter))
    \<and> columns_are_rows (getControlsTrajectory mucoIter) (controls t) 0
           (length (getControlNames mucoIter)) (length (getTime mucoIter))
    \<and> columns_are_rows (getMultipliersTrajectory mucoIter) (adjuncts t) 0
           (length (getMultiplierNames mucoIter)) (length (getTime mucoIter))
    \<and> columns_are_rows (getDerivativesTrajectory mucoIter) (adjuncts t)
           (length (getMultiplierNames mucoIter)) (length (getDerivativeNames mucoIter))
           (length (getTime mucoIter))
    \<and> (getStateNames mucoIter \<noteq> [] \<longrightarrow>
           states t = transpose_matrix (getStatesTrajectory mucoIter))
    \<and> (getControlNames mucoIter \<noteq> [] \<longrightarrow>
           controls t = transpose_matrix (getControlsTrajectory mucoIter))"
proof -
  note f = convertIterateTropterToMuco_Inr [OF assms(1)]
  note b = convertToTropterIterate_Inr [OF assms(2,3)]
  have nD: "nat (tropSol_numDerivatives this tropSol) =
              length (adjunct_names tropSol) - nat (m_mpSum this)"
    using f(1,2) by (simp add: tropSol_numDerivatives_def)
  from assms(4) have ok:
    "channels_ok (length (getTime mucoIter)) (getStateNames mucoIter)
       (getStatesTrajectory mucoIter)"
    "channels_ok (length (getTime mucoIter)) (getControlNames mucoIter)
       (getControlsTrajectory mucoIter)"
    "channels_ok (length (getTime mucoIter)) (getMultiplierNames mucoIter)
       (getMultipliersTrajectory mucoIter)"
    "channels_ok (length (getTime mucoIter)) (getDerivativeNames mucoIter)
       (getDerivativesTrajectory mucoIter)"
    by (simp_all add: MucoIterate_ok_def)
  note copy_channels_columns [OF f(9)] copy_channels_columns [OF f(10)]
    copy_channels_columns [OF f(11)] copy_channels_columns [OF f(12), unfolded nD]
  moreover note transpose_channels_columns [OF b(6) ok(1)]
    transpose_channels_columns [OF b(7) ok(2)]
    adjuncts_block_columns [OF b(8) ok(3,4)]
  moreover have "getStateNames mucoIter \<noteq> [] \<longrightarrow>
           states t = transpose_matrix (getStatesTrajectory mucoIter)"
    using transpose_channels_whole [OF b(6) ok(1)] by simp
  moreover have "getControlNames mucoIter \<noteq> [] \<longrightarrow>
           controls t = transpose_matrix (getControlsTrajectory mucoIter)"
    using transpose_channels_whole [OF b(7) ok(2)] by simp
  ultimately show ?thesis by simp
qed

theorem channels_copied_by_transposition_witness:
  "convertIterateTropterToMuco past_faults 0 sample_problem sample_tropSol = Inr sample_mucoIter
   \<and> convertToTropterIterate no_values 0 sample_problem sample_mucoIter = Inr sample_tropSol
   \<and> \<not> no_values sample_mucoIter \<and> MucoIterate_ok sample_mucoIter
   \<and> columns_are_rows (getStatesTrajectory sample_mucoIter) (states sample_tropSol) 0
        (length (state_names sample_tropSol)) (length (time sample_tropSol))
   \<and> columns_are_rows (getDerivativesTrajectory sample_mucoIter) (adjuncts sample_tropSol)
        (nat (m_mpSum sample_problem))
        (length (adjunct_names sample_tropSol) - nat (m_mpSum sample_problem))
        (length (time sample_tropSol))
   \<and> columns_are_rows (getStatesTrajectory sample_mucoIter) (states sample_tropSol) 0
        (length (getStateNames sample_mucoIter)) (length (getTime sample_mucoIter))
   \<and> getStateNames sample_mucoIter \<noteq> []
   \<and> states sample_tropSol = transpose_matrix (getStatesTrajectory sample_mucoIter)"
proof -
  have ne: "getStateNames sample_mucoIter \<noteq> []" by (simp add: sample_mucoIter_def)
  have h3: "\<not> no_values sample_mucoIter" by (simp add: no_values_def sample_mucoIter_def)
  have h4: "MucoIterate_ok sample_mucoIter"
    by (simp add: MucoIterate_ok_def channels_ok_def sample_mucoIter_def)
  from channels_copied_by_transposition [OF sample_forward sample_backward h3 h4]
    sample_forward sample_backward h3 h4 ne
  show ?thesis by blast
qed

text \<open>
  C6. \<^verbatim>\<open>convertIterateTropterToMuco\<close> has one consistency check, the assertion that the
  derivative count is not negative: a run ends in the failed assertion exactly when it
  reaches line 39 (\<^verbatim>\<open>m_mpSum\<close> is not negative and the copy of line 34 did not fault) with
  a negative \<^verbatim>\<open>numDerivatives\<close>. Whenever the \<^verbatim>\<open>adjunct_names\<close> list has at least
  \<^verbatim>\<open>m_mpSum\<close> entries, \<^verbatim>\<open>numDerivatives >= 0\<close> holds and no run ends in the failed
  assertion.
\<close>

theorem derivative_count_nonnegative:
  "(convertIterateTropterToMuco past_end uninit this tropSol = Inl AssertionFailed \<longleftrightarrow>
      0 \<le> m_mpSum this
      \<and> copy_n past_end (adjunct_names tropSol) 0 (nat (m_mpSum this)) \<noteq> Inl OutOfRange
      \<and> tropSol_numDerivatives this tropSol < 0)
   \<and> (m_mpSum this \<le> int (length (adjunct_names tropSol)) \<longrightarrow>
        0 \<le> tropSol_numDerivatives this tropSol
        \<and> convertIterateTropterToMuco past_end uninit this tropSol \<noteq> Inl AssertionFailed)"
proof -
  have "0 \<le> tropSol_numDerivatives this tropSol"
    if "m_mpSum this \<le> int (length (adjunct_names tropSol))"
    using that by (simp add: tropSol_numDerivatives_def)
  then show ?thesis
    using convertIterateTropterToMuco_assert [of past_end uninit this tropSol] by auto
qed

theorem derivative_count_nonnegative_witness:
  "m_mpSum sample_problem \<le> int (length (adjunct_names sample_tropSol))
   \<and> 0 \<le> tropSol_numDerivatives sample_problem sample_tropSol
   \<and> convertIterateTropterToMuco past_junk 0 sample_problem sample_tropSol
        \<noteq> Inl AssertionFailed
   \<and> int (length (adjunct_names sample_tropSol)) < m_mpSum (sample_problem\<lparr>m_mpSum := 4\<rparr>)
   \<and> tropSol_numDerivatives (sample_problem\<lparr>m_mpSum := 4\<rparr>) sample_tropSol < 0
   \<and> convertIterateTropterToMuco past_junk 0 (sample_problem\<lparr>m_mpSum := 4\<rparr>) sample_tropSol
        = Inl AssertionFailed
   \<and> convertIterateTropterToMuco past_faults 0 (sample_problem\<lparr>m_mpSum := 4\<rparr>) sample_tropSol
        \<noteq> Inl AssertionFailed"
proof -
  have h: "m_mpSum sample_problem \<le> int (length (adjunct_names sample_tropSol))"
    by (simp add: sample_problem_def sample_tropSol_def)
  have n: "int (length (adjunct_names sample_tropSol)) < m_mpSum (sample_problem\<lparr>m_mpSum := 4\<rparr>)"
    "tropSol_numDerivatives (sample_problem\<lparr>m_mpSum := 4\<rparr>) sample_tropSol < 0"
    "0 \<le> m_mpSum (sample_problem\<lparr>m_mpSum := 4\<rparr>)"
    by (simp_all add: sample_tropSol_def tropSol_numDerivatives_def)
  have j: "copy_n past_junk (adjunct_names sample_tropSol) 0
             (nat (m_mpSum (sample_problem\<lparr>m_mpSum := 4\<rparr>))) \<noteq> Inl OutOfRange"
    by code_simp
  have f: "copy_n past_faults (adjunct_names sample_tropSol) 0
             (nat (m_mpSum (sample_problem\<lparr>m_mpSum := 4\<rparr>))) = Inl OutOfRange"
    by code_simp
  from derivative_count_nonnegative [of past_junk 0 sample_problem sample_tropSol]
    derivative_count_nonnegative [of past_junk 0 "sample_problem\<lparr>m_mpSum := 4\<rparr>" sample_tropSol]
    derivative_count_nonnegative [of past_faults 0 "sample_problem\<lparr>m_mpSum := 4\<rparr>" sample_tropSol]
    h n j f
  show ?thesis by blast
qed

text \<open>
  C7. Every trajectory that a conversion returns keeps one time-sample count: in the
  Muscollo iterate returned by \<^verbatim>\<open>convertIterateTropterToMuco\<close> each matrix other than a
  default-constructed \<open>0 \<times> 0\<close> one has \<open>numTimes\<close> rows, and in the tropter iterate
  returned by \<^verbatim>\<open>convertToTropterIterate\<close> each matrix other than a default-constructed one
  has \<open>numTimes\<close> columns, where \<open>numTimes\<close> is the length of the input's time vector.
  A matrix that holds an element is not the \<open>0 \<times> 0\<close> one.
\<close>

theorem same_time_sample_count:
  assumes "convertIterateTropterToMuco past_end uninit this tropSol = Inr r"
    and "convertToTropterIterate empty' uninit' this' mucoIter = Inr t"
  shows "length (getTime r) = length (time tropSol)
    \<and> (getStatesTrajectory r = empty_matrix
          \<or> nrow (getStatesTrajectory r) = length (time tropSol))
    \<and> (getControlsTrajectory r = empty_matrix
          \<or> nrow (getControlsTrajectory r) = length (time tropSol))
    \<and> (getMultipliersTrajectory r = empty_matrix
          \<or> nrow (getMultipliersTrajectory r) = length (time tropSol))
    \<and> (getDerivativesTrajectory r = empty_matrix
          \<or> nrow (getDerivativesTrajectory r) = length (time tropSol))
    \<and> (states t = empty_matrix \<or> ncol (states t) = length (getTime mucoIter))
    \<and> (controls t = empty_matrix \<or> ncol (controls t) = length (getTime mucoIter))
    \<and> (adjuncts t = empty_matrix \<or> ncol (adjuncts t) = length (getTime mucoIter))"
proof -
  note f = convertIterateTropterToMuco_Inr [OF assms(1)]
  have rows: "m = empty_matrix \<or> nrow m = numTimes"
    if "copy_channels uninit numTimes n offset src = Inr m"
    for m src numTimes n offset
    using copy_channels_shape [OF that] by (cases "n = 0") simp_all
  have tr: "(states t = empty_matrix \<or> ncol (states t) = length (getTime mucoIter))
    \<and> (controls t = empty_matrix \<or> ncol (controls t) = length (getTime mucoIter))
    \<and> (adjuncts t = empty_matrix \<or> ncol (adjuncts t) = length (getTime mucoIter))"
  proof (cases "empty' mucoIter")
    case True
    with assms(2) have "t = default_Iterate" by (simp add: convertToTropterIterate_def)
    then show ?thesis by (simp add: default_Iterate_def)
  next
    case False
    note b = convertToTropterIterate_Inr [OF assms(2) False]
    from transpose_channels_Inr [OF b(6)] transpose_channels_Inr [OF b(7)]
      adjuncts_block_Inr [OF b(8)]
    show ?thesis by simp
  qed
  from rows [OF f(9)] rows [OF f(10)] rows [OF f(11)] rows [OF f(12)] f(3) tr
  show ?thesis by simp
qed

theorem same_time_sample_count_witness:
  "convertIterateTropterToMuco past_faults 0 sample_problem sample_tropSol = Inr sample_mucoIter
   \<and> convertToTropterIterate no_values 0 sample_problem sample_mucoIter = Inr sample_tropSol
   \<and> length (getTime sample_mucoIter) = length (time sample_tropSol)
   \<and> nrow (getStatesTrajectory sample_mucoIter) = length (time sample_tropSol)
   \<and> getControlsTrajectory sample_mucoIter = empty_matrix
   \<and> ncol (states sample_tropSol) = length (getTime sample_mucoIter)
   \<and> ncol (controls sample_tropSol) = length (getTime sample_mucoIter)
   \<and> ncol (adjuncts sample_tropSol) = length (getTime sample_mucoIter)"
proof -
  have a: "getStatesTrajectory sample_mucoIter \<noteq> empty_matrix"
    "getControlsTrajectory sample_mucoIter = empty_matrix"
    "states sample_tropSol \<noteq> empty_matrix" "controls sample_tropSol \<noteq> empty_matrix"
    "adjuncts sample_tropSol \<noteq> empty_matrix"
    by (simp_all add: sample_mucoIter_def sample_tropSol_def empty_matrix_def)
  from same_time_sample_count [OF sample_forward sample_backward] a
    sample_forward sample_backward
  show ?thesis by blast
qed




text \<open>
  C9. When \<^verbatim>\<open>mucoIter.empty()\<close> is true, \<^verbatim>\<open>convertToTropterIterate\<close> returns a
  default-constructed \<^verbatim>\<open>tropter::Iterate\<close>: no time sample, no name, three \<open>0 \<times> 0\<close>
  matrices and no parameter, whatever the fields of the input hold.
\<close>

theorem empty_iterate_gives_default:
  assumes "empty' mucoIter"
  shows "convertToTropterIterate empty' uninit this mucoIter =
           Inr \<lparr>time = [], state_names = [], control_names = [], adjunct_names = [],
                parameter_names = [],
                states = \<lparr>nrow = 0, ncol = 0, elts = []\<rparr>,
                controls = \<lparr>nrow = 0, ncol = 0, elts = []\<rparr>,
                adjuncts = \<lparr>nrow = 0, ncol = 0, elts = []\<rparr>,
                parameters = []\<rparr>"
  using assms by (simp add: convertToTropterIterate_def default_Iterate_def empty_matrix_def)

theorem empty_iterate_gives_default_witness:
  "no_values blank_mucoIter
   \<and> convertToTropterIterate no_values (0::int) sample_problem blank_mucoIter =
           Inr \<lparr>time = [], state_names = [], control_names = [], adjunct_names = [],
                parameter_names = [],
                states = \<lparr>nrow = 0, ncol = 0, elts = []\<rparr>,
                controls = \<lparr>nrow = 0, ncol = 0, elts = []\<rparr>,
                adjuncts = \<lparr>nrow = 0, ncol = 0, elts = []\<rparr>,
                parameters = []\<rparr>"
proof -
  have h: "no_values blank_mucoIter" by (simp add: no_values_def blank_mucoIter_def)
  from empty_iterate_gives_default [of no_values blank_mucoIter 0 sample_problem] h
  show ?thesis by simp
qed

text \<open>
  C10. \<^verbatim>\<open>createDoublePendulum()\<close> returns \<^verbatim>\<open>createNLinkPendulum(2)\<close>. The class has no member
  \<^verbatim>\<open>createPendulum\<close>: its definition is inside the comment of line 40, so a call of it
  has no result.
\<close>

theorem createPendulum_not_declared:
  "createDoublePendulum createNLinkPendulum = createNLinkPendulum 2
   \<and> call_convenience createNLinkPendulum ''createDoublePendulum''
        = Some (createNLinkPendulum 2)
   \<and> ''createPendulum'' \<notin> set ModelFactory_members
   \<and> call_convenience createNLinkPendulum ''createPendulum'' = None"
  by (simp add: createDoublePendulum_def call_convenience_def ModelFactory_members_def)

end
